theory Spec2Isabelle
  imports Main "HOL-Library.AList"
begin

section \<open>Data model\<close>

text \<open>
  Research results are Python dictionaries with a fixed set of keys; they are records here.
  Relevance is an integer score. The brief analysis is a dictionary read with
  \<^verbatim>\<open>.get(key, default)\<close>, so each of its keys may be absent.
\<close>

record law_section =
  title :: string
  sectionNumber :: string
  content :: string
  relevance :: int

record case_history =
  citation :: string
  parties :: string
  holdings :: string
  case_relevance :: int

record brief_analysis =
  domains :: "string list option"
  acts :: "string list option"
  summary :: "string option"

definition dict_get :: "'a option \<Rightarrow> 'a \<Rightarrow> 'a" where
  \<comment> \<open>\<^verbatim>\<open>d.get(key, default)\<close> on an optional entry\<close>
  "dict_get entry dflt = (case entry of None \<Rightarrow> dflt | Some v \<Rightarrow> v)"

section \<open>Analysis generator (legal\_backend.py, LegalAnalysisGenerator)\<close>

definition generic_arguments :: "string list" where
  "generic_arguments =
    [''The facts presented establish a prima facie case that meets all statutory requirements.'',
     ''The opposing party's actions constitute a clear violation of established legal principles.'',
     ''Procedural irregularities in the opposing party's approach undermine their position.'']"

definition section_argument :: "law_section \<Rightarrow> string" where
  "section_argument s =
    (let c = content s;
         c = (if length c > 100 then take 100 c @ ''...'' else c)
     in ''Under '' @ title s @ '' Section '' @ sectionNumber s @ '', you can argue that '' @ c)"

definition case_argument :: "case_history \<Rightarrow> string" where
  "case_argument c =
    ''The precedent established in '' @ parties c @ '' ('' @ citation c
      @ '') supports the position that '' @ holdings c"

definition generate_arguments ::
  "brief_analysis \<Rightarrow> law_section list \<Rightarrow> case_history list \<Rightarrow> string list" where
  "generate_arguments ba law_sections case_histories =
    (let arguments = map section_argument (take 3 law_sections);
         arguments = arguments @ map case_argument (take 2 case_histories);
         arguments = (if length arguments < 3
                      then arguments @ take (3 - length arguments) generic_arguments
                      else arguments)
     in take 5 arguments)"

definition generic_challenges :: "string list" where
  "generic_challenges =
    [''Establishing sufficient evidence to meet the burden of proof may be challenging.'',
     ''The opposing party may argue that the statute of limitations has expired.'',
     ''Jurisdictional issues could arise if the matter crosses state boundaries.'',
     ''Proving the requisite intent element may be difficult without direct evidence.'',
     ''Quantifying damages precisely could be challenging without expert testimony.'']"

definition generate_challenges ::
  "brief_analysis \<Rightarrow> law_section list \<Rightarrow> case_history list \<Rightarrow> string list" where
  "generate_challenges ba law_sections case_histories =
    (let ds = dict_get (domains ba) [''general''];
         challenges = [];
         challenges = (if ''criminal'' \<in> set ds
           then challenges @ [''Proving criminal intent beyond reasonable doubt will require substantial evidence.'']
           else challenges);
         challenges = (if ''civil'' \<in> set ds
           then challenges @ [''Establishing causation between the breach and claimed damages may be difficult.'']
           else challenges);
         challenges = (if ''constitutional'' \<in> set ds
           then challenges @ [''Constitutional challenges face a high standard of review from the courts.'']
           else challenges);
         challenges = (if length challenges < 3
                       then challenges @ take (3 - length challenges) generic_challenges
                       else challenges)
     in take 4 challenges)"

definition generic_recommendations :: "string list" where
  "generic_recommendations =
    [''Gather all documentary evidence to support factual assertions in the case.'',
     ''Consider engaging expert witnesses to strengthen technical aspects of the case.'',
     ''Prepare detailed affidavits from all relevant witnesses.'',
     ''Explore alternative dispute resolution options before proceeding to trial.'',
     ''Conduct thorough research on the presiding judge's previous rulings in similar cases.'']"

definition generate_recommendations ::
  "brief_analysis \<Rightarrow> law_section list \<Rightarrow> case_history list \<Rightarrow> string list" where
  "generate_recommendations ba law_sections case_histories =
    (let ds = dict_get (domains ba) [''general''];
         recommendations = [];
         recommendations = (if ''criminal'' \<in> set ds
           then recommendations @ [''Scrutinize the investigation procedure for any procedural lapses that could be challenged.'']
           else recommendations);
         recommendations = (if ''civil'' \<in> set ds
           then recommendations @ [''Quantify damages precisely with supporting documentation and expert opinions.'']
           else recommendations);
         recommendations = (if ''corporate'' \<in> set ds
           then recommendations @ [''Review all corporate governance documents and board resolutions relevant to the matter.'']
           else recommendations);
         recommendations = (case case_histories of
             [] \<Rightarrow> recommendations
           | top_case # _ \<Rightarrow> recommendations @
               [''Cite '' @ parties top_case
                  @ '' prominently in submissions as it establishes favorable precedent.'']);
         recommendations = (if length recommendations < 4
                            then recommendations @ take (4 - length recommendations) generic_recommendations
                            else recommendations)
     in take 5 recommendations)"

section \<open>Research aggregator (legal\_backend.py, LegalDataAggregator)\<close>

text \<open>
  A connector is an object with two search methods. Each call either returns a list of
  records or raises; what it raises is an instance of \<^verbatim>\<open>Exception\<close>
  (\<^verbatim>\<open>NotImplementedError\<close> of the base class, the \<^verbatim>\<open>Exception\<close> of a
  failed request), carried here with its message.
\<close>

datatype py_exception = PyException string

record query_params =
  query_keywords :: "string list"
  query_acts :: "string list"
  query_sections :: "string list"
  query_domains :: "string list"

record connector =
  connector_law_sections :: "query_params \<Rightarrow> py_exception + law_section list"
  connector_case_history :: "query_params \<Rightarrow> py_exception + case_history list"

text \<open>
  The loop over the connectors: \<^verbatim>\<open>all_results.extend(results)\<close> inside
  \<^verbatim>\<open>try\<close>, and \<^verbatim>\<open>except Exception\<close> only prints a message and goes on.
\<close>

fun query_connectors ::
  "('q \<Rightarrow> py_exception + 'a list) list \<Rightarrow> 'q \<Rightarrow> 'a list \<Rightarrow> 'a list" where
  "query_connectors [] query_params all_results = all_results"
| "query_connectors (connector # rest) query_params all_results =
     (case connector query_params of
        Inr results \<Rightarrow> query_connectors rest query_params (all_results @ results)
      | Inl e \<Rightarrow> query_connectors rest query_params all_results)"

text \<open>
  The deduplication loop. The dictionary \<^verbatim>\<open>deduplicated\<close> keeps its keys in
  insertion order and an assignment to an existing key keeps the key's position: an
  association list with \<^const>\<open>AList.update\<close>.
\<close>

fun deduplicate ::
  "('a \<Rightarrow> 'k) \<Rightarrow> ('a \<Rightarrow> int) \<Rightarrow> 'a list \<Rightarrow> ('k \<times> 'a) list \<Rightarrow> ('k \<times> 'a) list" where
  "deduplicate key rel [] deduplicated = deduplicated"
| "deduplicate key rel (result # rest) deduplicated =
     (case map_of deduplicated (key result) of
        None \<Rightarrow> deduplicate key rel rest (AList.update (key result) result deduplicated)
      | Some kept \<Rightarrow>
          if rel result > rel kept
          then deduplicate key rel rest (AList.update (key result) result deduplicated)
          else deduplicate key rel rest deduplicated)"

definition sorted_by_relevance :: "('a \<Rightarrow> int) \<Rightarrow> 'a list \<Rightarrow> 'a list" where
  \<comment> \<open>\<^verbatim>\<open>sorted(xs, key=lambda x: x["relevance"], reverse=True)\<close>: stable, descending\<close>
  "sorted_by_relevance rel xs = sort_key (\<lambda>x. - rel x) xs"

definition law_key :: "law_section \<Rightarrow> string \<times> string" where
  "law_key result = (title result, sectionNumber result)"

definition all_law_results :: "connector list \<Rightarrow> query_params \<Rightarrow> law_section list" where
  "all_law_results connectors qp =
     query_connectors (map connector_law_sections connectors) qp []"

definition all_case_results :: "connector list \<Rightarrow> query_params \<Rightarrow> case_history list" where
  "all_case_results connectors qp =
     query_connectors (map connector_case_history connectors) qp []"

definition search_law_sections :: "connector list \<Rightarrow> query_params \<Rightarrow> law_section list" where
  "search_law_sections connectors qp =
     (let all_results = all_law_results connectors qp;
          deduplicated = deduplicate law_key relevance all_results [];
          sorted_results = sorted_by_relevance relevance (map snd deduplicated)
      in sorted_results)"

definition search_case_history :: "connector list \<Rightarrow> query_params \<Rightarrow> case_history list" where
  "search_case_history connectors qp =
     (let all_results = all_case_results connectors qp;
          deduplicated = deduplicate citation case_relevance all_results [];
          sorted_results = sorted_by_relevance case_relevance (map snd deduplicated)
      in sorted_results)"

text \<open>
  Specification vocabulary for the deduplication: \<open>v\<close> is the first record of \<open>p\<close>, among
  those with its key, that reaches their maximum relevance.
\<close>

definition first_best :: "('a \<Rightarrow> 'k) \<Rightarrow> ('a \<Rightarrow> int) \<Rightarrow> 'a list \<Rightarrow> 'a \<Rightarrow> bool" where
  "first_best key rel p v \<longleftrightarrow>
     (\<exists>i<length p. p ! i = v \<and>
        (\<forall>j<length p. key (p ! j) = key v \<longrightarrow>
            rel (p ! j) \<le> rel v \<and> (j < i \<longrightarrow> rel (p ! j) < rel v)))"

definition dedup_inv ::
  "('a \<Rightarrow> 'k) \<Rightarrow> ('a \<Rightarrow> int) \<Rightarrow> ('k \<times> 'a) list \<Rightarrow> 'a list \<Rightarrow> bool" where
  "dedup_inv key rel d p \<longleftrightarrow>
     distinct (map fst d)
     \<and> (\<forall>k v. map_of d k = Some v \<longrightarrow> key v = k \<and> first_best key rel p v)
     \<and> (\<forall>x\<in>set p. map_of d (key x) \<noteq> None)"

definition succeeded :: "py_exception + 'a list \<Rightarrow> 'a list" where
  \<comment> \<open>what a connector call contributes: its results, or nothing when it raised\<close>
  "succeeded outcome = (case outcome of Inr results \<Rightarrow> results | Inl e \<Rightarrow> [])"

section \<open>Text normalizer (legal\_backend.py, LegalBriefAnalyzer.\_preprocess\_text)\<close>

text \<open>
  A Python string is a sequence of Unicode code points, here natural numbers. The pattern
  \<^verbatim>\<open>\s\<close> on a string and \<^verbatim>\<open>str.strip()\<close> use the same whitespace test
  (\<^verbatim>\<open>Py_UNICODE_ISSPACE\<close>).
\<close>

type_synonym unicode = "nat list"

definition is_space :: "nat \<Rightarrow> bool" where
  "is_space c \<longleftrightarrow>
     (9 \<le> c \<and> c \<le> 13) \<or> (28 \<le> c \<and> c \<le> 32) \<or> c = 133 \<or> c = 160 \<or> c = 5760
     \<or> (8192 \<le> c \<and> c \<le> 8202) \<or> c = 8232 \<or> c = 8233 \<or> c = 8239 \<or> c = 8287
     \<or> c = 12288"

function re_sub_spaces :: "unicode \<Rightarrow> unicode" where
  "re_sub_spaces [] = []"
| "re_sub_spaces (c # cs) =
     (if is_space c then 32 # re_sub_spaces (dropWhile is_space cs)
      else c # re_sub_spaces cs)"
  by pat_completeness auto
termination
  by (relation "measure length") (auto simp: length_dropWhile_le less_Suc_eq_le)

definition strip :: "unicode \<Rightarrow> unicode" where
  "strip s = rev (dropWhile is_space (rev (dropWhile is_space s)))"

definition re_sub_class :: "nat list \<Rightarrow> nat \<Rightarrow> unicode \<Rightarrow> unicode" where
  "re_sub_class cls repl s = map (\<lambda>c. if c \<in> set cls then repl else c) s"

definition preprocess_text_with :: "nat list \<Rightarrow> nat list \<Rightarrow> unicode \<Rightarrow> unicode" where
  "preprocess_text_with quotes apostrophes text =
     (let text = strip (re_sub_spaces text);
          text = re_sub_class quotes 34 text;
          text = re_sub_class apostrophes 39 text
      in text)"

text \<open>
  The two character classes, as the file has them. The class of the quote substitution,
  \<^verbatim>\<open>["""]\<close>, holds the one character U+0022, written three times, and the
  replacement is that same character. The class of the apostrophe substitution is spelled
  with U+0027 three times between single quotes; as Python that line does not parse (the
  second apostrophe ends the string literal), and it is read here as the class its
  characters spell, with U+0027 as the replacement. Typographic quotes and apostrophes are
  in neither class and stay as they are. The classes are parameters of
  \<open>preprocess_text_with\<close>, and what is proved for it holds for any two classes with
  the apostrophe outside the first.
\<close>

definition quote_glyphs :: "nat list" where
  "quote_glyphs = [0x22, 0x22, 0x22]"

definition apostrophe_glyphs :: "nat list" where
  "apostrophe_glyphs = [0x27, 0x27, 0x27]"

definition preprocess_text :: "unicode \<Rightarrow> unicode" where
  "preprocess_text = preprocess_text_with quote_glyphs apostrophe_glyphs"

text \<open>
  Proof vocabulary: a text whose whitespace is already collapsed, a text without leading
  or trailing whitespace, and the combined effect of the two substitutions on one
  character.
\<close>

fun normal_spaces :: "unicode \<Rightarrow> bool" where
  "normal_spaces [] = True"
| "normal_spaces (c # cs) =
     ((is_space c \<longrightarrow> c = 32 \<and> (cs \<noteq> [] \<longrightarrow> \<not> is_space (hd cs))) \<and> normal_spaces cs)"

definition stripped :: "unicode \<Rightarrow> bool" where
  "stripped t \<longleftrightarrow> (t \<noteq> [] \<longrightarrow> \<not> is_space (hd t) \<and> \<not> is_space (last t))"

definition canon :: "nat list \<Rightarrow> nat list \<Rightarrow> nat \<Rightarrow> nat" where
  "canon quotes apostrophes c =
     (let c = (if c \<in> set quotes then 34 else c) in if c \<in> set apostrophes then 39 else c)"

section \<open>Citation extractor and query generator (legal\_brief\_analyzer.py)\<close>

text \<open>
  Brief texts and queries are HOL strings, whose characters are the code points below 256.
  In that range the pattern \<^verbatim>\<open>\d\<close> matches the ten ASCII digits and nothing else,
  and \<^verbatim>\<open>\s\<close> the whitespace characters of \<^const>\<open>is_space\<close>.
\<close>

definition space_char :: "char \<Rightarrow> bool" where
  "space_char c = is_space (of_char c)"

definition digit_char :: "char \<Rightarrow> bool" where
  "digit_char c \<longleftrightarrow> 48 \<le> (of_char c :: nat) \<and> (of_char c :: nat) \<le> 57"

text \<open>
  The pieces of the three citation patterns. Each takes the text at the current position
  and returns what it captured and the rest of the text, or fails. None of the patterns
  leaves the regular-expression engine a choice: \<^verbatim>\<open>\d{4}\<close> has a fixed length,
  and a greedy \<^verbatim>\<open>\s*\<close> or \<^verbatim>\<open>\d+\<close> is always followed by something that
  neither a whitespace character nor a digit can start, so giving characters back never
  helps.
\<close>

definition re_digits4 :: "string \<Rightarrow> (string \<times> string) option" where
  \<comment> \<open>\<^verbatim>\<open>(\d{4})\<close>\<close>
  "re_digits4 s = (if 4 \<le> length s \<and> list_all digit_char (take 4 s)
                   then Some (take 4 s, drop 4 s) else None)"

definition re_digits :: "string \<Rightarrow> (string \<times> string) option" where
  \<comment> \<open>\<^verbatim>\<open>(\d+)\<close>\<close>
  "re_digits s = (if takeWhile digit_char s = [] then None
                  else Some (takeWhile digit_char s, dropWhile digit_char s))"

definition re_spaces :: "string \<Rightarrow> string" where
  \<comment> \<open>\<^verbatim>\<open>\s*\<close>\<close>
  "re_spaces s = dropWhile space_char s"

definition re_literal :: "string \<Rightarrow> string \<Rightarrow> string option" where
  "re_literal lit s = (if take (length lit) s = lit then Some (drop (length lit) s) else None)"

text \<open>
  A citation is a dictionary with a \<^verbatim>\<open>type\<close> key and the fields of that type:
  year and page for AIR and SCR, year, volume and page for SCC.
\<close>

datatype citation = AIR string string | SCC string string string | SCR string string

definition match_air :: "string \<Rightarrow> (citation \<times> string) option" where
  \<comment> \<open>\<^verbatim>\<open>(\d{4})\s*AIR\s*(\d+)\<close>\<close>
  "match_air s =
     (case re_digits4 s of None \<Rightarrow> None | Some (year, s) \<Rightarrow>
      case re_literal ''AIR'' (re_spaces s) of None \<Rightarrow> None | Some s \<Rightarrow>
      case re_digits (re_spaces s) of None \<Rightarrow> None | Some (page, s) \<Rightarrow>
        Some (AIR year page, s))"

definition match_scc :: "string \<Rightarrow> (citation \<times> string) option" where
  \<comment> \<open>\<^verbatim>\<open>\((\d{4})\)\s*(\d+)\s*SCC\s*(\d+)\<close>\<close>
  "match_scc s =
     (case re_literal ''('' s of None \<Rightarrow> None | Some s \<Rightarrow>
      case re_digits4 s of None \<Rightarrow> None | Some (year, s) \<Rightarrow>
      case re_literal '')'' s of None \<Rightarrow> None | Some s \<Rightarrow>
      case re_digits (re_spaces s) of None \<Rightarrow> None | Some (volume, s) \<Rightarrow>
      case re_literal ''SCC'' (re_spaces s) of None \<Rightarrow> None | Some s \<Rightarrow>
      case re_digits (re_spaces s) of None \<Rightarrow> None | Some (page, s) \<Rightarrow>
        Some (SCC year volume page, s))"

definition match_scr :: "string \<Rightarrow> (citation \<times> string) option" where
  \<comment> \<open>\<^verbatim>\<open>(\d{4})\s*SCR\s*(\d+)\<close>\<close>
  "match_scr s =
     (case re_digits4 s of None \<Rightarrow> None | Some (year, s) \<Rightarrow>
      case re_literal ''SCR'' (re_spaces s) of None \<Rightarrow> None | Some s \<Rightarrow>
      case re_digits (re_spaces s) of None \<Rightarrow> None | Some (page, s) \<Rightarrow>
        Some (SCR year page, s))"

text \<open>
  \<^verbatim>\<open>re.finditer\<close>: the matches from left to right, without overlap. After a match
  the scan goes on where the match ended, after a failure one character further.
\<close>

function finditer :: "(string \<Rightarrow> ('m \<times> string) option) \<Rightarrow> string \<Rightarrow> 'm list" where
  "finditer m s =
     (case m s of
        Some (x, rest) \<Rightarrow>
          if length rest < length s then x # finditer m rest
          else (case s of [] \<Rightarrow> [x] | _ # t \<Rightarrow> x # finditer m t)
      | None \<Rightarrow> (case s of [] \<Rightarrow> [] | _ # t \<Rightarrow> finditer m t))"
  by pat_completeness auto
termination
  by (relation "measure (\<lambda>(m, s). length s)") auto

definition extract_citations :: "string \<Rightarrow> citation list" where
  "extract_citations text =
     (let citations = [];
          citations = citations @ finditer match_air text;
          citations = citations @ finditer match_scc text;
          citations = citations @ finditer match_scr text
      in citations)"

text \<open>
  The query generator. The noun chunks that spaCy finds in the text and the legal terms
  that \<^verbatim>\<open>_extract_legal_terms\<close> finds in it are inputs, as are the entities, a
  dictionary from entity type to the values found, in the dictionary's order.
\<close>

fun split_words :: "string \<Rightarrow> string \<Rightarrow> string list" where
  "split_words word [] = (if word = [] then [] else [word])"
| "split_words word (c # cs) =
     (if space_char c then (if word = [] then split_words [] cs else word # split_words [] cs)
      else split_words (word @ [c]) cs)"

definition py_split :: "string \<Rightarrow> string list" where
  \<comment> \<open>\<^verbatim>\<open>s.split()\<close>: the maximal runs of characters that are not whitespace\<close>
  "py_split s = split_words [] s"

record act_section =
  act :: string
  section_number :: string

definition act_section_query :: "act_section \<Rightarrow> string" where
  "act_section_query item = act item @ '' section '' @ section_number item"

fun citation_query :: "citation \<Rightarrow> string" where
  "citation_query (AIR year page) = year @ '' AIR '' @ page"
| "citation_query (SCC year volume page) = ''('' @ year @ '') '' @ volume @ '' SCC '' @ page"
| "citation_query (SCR year page) = year @ '' SCR '' @ page"

definition entity_queries :: "(string \<times> string list) list \<Rightarrow> string list \<Rightarrow> string list" where
  "entity_queries entities legal_terms =
     concat (map (\<lambda>(entity_type, values).
        if entity_type \<in> set [''PERSON'', ''ORG''] \<and> values \<noteq> []
        then concat (map (\<lambda>value. case legal_terms of [] \<Rightarrow> []
                                   | term # _ \<Rightarrow> [value @ '' '' @ term]) (take 3 values))
        else []) entities)"

definition candidate_queries ::
  "string list \<Rightarrow> (string \<times> string list) list \<Rightarrow> act_section list \<Rightarrow> citation list
     \<Rightarrow> string list \<Rightarrow> string list" where
  \<comment> \<open>the list \<^verbatim>\<open>queries\<close> as it stands before the duplicates are removed\<close>
  "candidate_queries noun_chunks entities acts_sections citations legal_terms =
     (let key_phrases =
            filter (\<lambda>chunk. 2 \<le> length (py_split chunk) \<and> length (py_split chunk) \<le> 5)
              noun_chunks;
          queries = take 5 key_phrases;
          queries = queries @ map act_section_query acts_sections;
          queries = queries @ map citation_query citations;
          queries = queries @ entity_queries entities legal_terms
      in queries)"

text \<open>
  \<^verbatim>\<open>list(set(queries))\<close>. A set of strings is iterated in the order of the slots its
  elements occupy in the hash table, and a string's slot comes from its hash, which the
  interpreter salts anew in every process. The parameter \<open>slot\<close> stands for that
  position; strings with the same slot keep the order in which they were inserted. Every
  order of the distinct queries arises from some \<open>slot\<close>.
\<close>

fun uniq :: "'a list \<Rightarrow> 'a list" where
  "uniq [] = []"
| "uniq (x # xs) = x # uniq (filter (\<lambda>y. y \<noteq> x) xs)"

definition list_of_set :: "('a \<Rightarrow> nat) \<Rightarrow> 'a list \<Rightarrow> 'a list" where
  "list_of_set slot xs = sort_key slot (uniq xs)"

definition generate_search_queries ::
  "(string \<Rightarrow> nat) \<Rightarrow> string list \<Rightarrow> (string \<times> string list) list \<Rightarrow> act_section list
     \<Rightarrow> citation list \<Rightarrow> string list \<Rightarrow> string list" where
  "generate_search_queries slot noun_chunks entities acts_sections citations legal_terms =
     (let queries = candidate_queries noun_chunks entities acts_sections citations legal_terms;
          unique_queries = list_of_set slot queries
      in take 10 unique_queries)"

section \<open>Case file drafting agent (case\_file\_drafting\_agent.py)\<close>

text \<open>
  The dictionaries the agent reads: the analysis, the extracted entities and the caller's
  additional information. Every key is read with \<^verbatim>\<open>.get\<close>, so every key may be
  absent. The values of the additional information are strings: a section builder returns
  such a value as the text of its section.
\<close>

record analysis =
  arguments :: "string list option"
  challenges :: "string list option"
  recommendations :: "string list option"

record entities =
  persons :: "string list option"
  organizations :: "string list option"
  dates :: "string list option"
  locations :: "string list option"
  monetary_values :: "string list option"
  potential_parties :: "(string \<rightharpoonup> string list) option"

type_synonym info = "string \<rightharpoonup> string"

datatype draft_error = ValueError string | IndexError

subsection \<open>String operations of the Python library\<close>

function str_nat :: "nat \<Rightarrow> string" where
  "str_nat n = (if n < 10 then [char_of (48 + n)]
                else str_nat (n div 10) @ [char_of (48 + n mod 10)])"
  by pat_completeness auto
termination
  by (relation "measure id") auto

definition enumerate :: "nat \<Rightarrow> 'a list \<Rightarrow> (nat \<times> 'a) list" where
  "enumerate start xs = zip [start ..< start + length xs] xs"

fun join :: "string \<Rightarrow> string list \<Rightarrow> string" where
  "join sep [] = []"
| "join sep [x] = x"
| "join sep (x # y # ys) = x @ sep @ join sep (y # ys)"

fun contains :: "string \<Rightarrow> string \<Rightarrow> bool" where
  "contains sub [] = (sub = [])"
| "contains sub (c # cs) = (take (length sub) (c # cs) = sub \<or> contains sub cs)"

definition lower_char :: "char \<Rightarrow> char" where
  "lower_char c =
     (let n = of_char c :: nat
      in if (65 \<le> n \<and> n \<le> 90) \<or> (192 \<le> n \<and> n \<le> 222 \<and> n \<noteq> 215)
         then char_of (n + 32) else c)"

definition lower :: "string \<Rightarrow> string" where
  "lower s = map lower_char s"

function count_sub :: "string \<Rightarrow> string \<Rightarrow> nat" where
  "count_sub sub s =
     (if sub = [] then length s + 1
      else if length s < length sub then 0
      else if take (length sub) s = sub then 1 + count_sub sub (drop (length sub) s)
      else count_sub sub (tl s))"
  by pat_completeness auto
termination
  by (relation "measure (\<lambda>(sub, s). length s)") (auto simp: Suc_le_eq intro: diff_less)

function str_replace :: "string \<Rightarrow> string \<Rightarrow> string \<Rightarrow> string" where
  "str_replace old new s =
     (if old = [] then new @ concat (map (\<lambda>c. c # new) s)
      else if length s < length old then s
      else if take (length old) s = old then new @ str_replace old new (drop (length old) s)
      else hd s # str_replace old new (tl s))"
  by pat_completeness auto
termination
  by (relation "measure (\<lambda>(old, new, s). length s)") (auto simp: Suc_le_eq intro: diff_less)

definition py_or :: "'a list \<Rightarrow> 'a list \<Rightarrow> 'a list" where
  "py_or a b = (if a \<noteq> [] then a else b)"

definition first_or :: "string list \<Rightarrow> string \<Rightarrow> string" where
  "first_or xs dflt = (case xs of [] \<Rightarrow> dflt | x # _ \<Rightarrow> x)"

definition override :: "info \<Rightarrow> string \<Rightarrow> string option" where
  "override info key =
     (case info key of None \<Rightarrow> None | Some v \<Rightarrow> if v = [] then None else Some v)"

subsection \<open>Document structures\<close>

definition template_names :: "string list" where
  \<comment> \<open>the keys of \<^verbatim>\<open>self.templates\<close>\<close>
  "template_names =
     [''petition'', ''reply'', ''rejoinder'', ''affidavit'', ''legal_notice'', ''written_statement'']"

definition document_structures :: "string \<rightharpoonup> string list" where
  "document_structures = map_of
     [(''petition'',
         [''title'', ''jurisdiction'', ''parties'', ''facts'', ''grounds'',
          ''legal_provisions'', ''prayer'', ''verification'']),
      (''reply'',
         [''title'', ''parties'', ''preliminary_objections'', ''facts_rebuttal'',
          ''legal_arguments'', ''prayer'', ''verification'']),
      (''rejoinder'',
         [''title'', ''parties'', ''rebuttal_to_reply'', ''additional_facts'',
          ''legal_arguments'', ''prayer'', ''verification'']),
      (''affidavit'',
         [''title'', ''deponent_details'', ''verification'', ''statements'',
          ''declaration'', ''attestation'']),
      (''legal_notice'',
         [''sender_details'', ''recipient_details'', ''subject'', ''facts'',
          ''legal_provisions'', ''demand'', ''timeline'', ''consequences'']),
      (''written_statement'',
         [''title'', ''parties'', ''preliminary_objections'', ''facts'',
          ''defense_arguments'', ''legal_provisions'', ''prayer'', ''verification''])]"

subsection \<open>Section builders\<close>

text \<open>
  Every builder starts with \<^verbatim>\<open>if info.get(key): return info[key]\<close>: the override is
  taken when the key is present and its value is not the empty string. The current date
  (\<open>today\<close>, formatted day/month/year) and NLTK's sentence splitter (\<open>sent_tokenize\<close>)
  are parameters.
\<close>

definition generate_title :: "string \<Rightarrow> brief_analysis \<Rightarrow> entities \<Rightarrow> info \<Rightarrow> string" where
  "generate_title document_type ba ents info =
     (case override info ''title'' of Some text \<Rightarrow> text | None \<Rightarrow>
      let court = dict_get (info ''court'') ''APPROPRIATE COURT'';
          ds = dict_get (domains ba) [''general''];
          case_type =
            (if ''criminal'' \<in> set ds then ''CRIMINAL CASE''
             else if ''civil'' \<in> set ds then ''CIVIL SUIT''
             else if ''constitutional'' \<in> set ds then ''WRIT PETITION''
             else if ''corporate'' \<in> set ds then ''COMPANY PETITION''
             else if ''tax'' \<in> set ds then ''TAX APPEAL''
             else ''PETITION'');
          pp = dict_get (potential_parties ents) Map.empty;
          petitioners = py_or (dict_get (pp ''petitioners'') []) (dict_get (pp ''plaintiffs'') []);
          respondents = py_or (dict_get (pp ''respondents'') []) (dict_get (pp ''defendants'') []);
          petitioner = first_or petitioners ''PETITIONER NAME'';
          respondent = first_or respondents ''RESPONDENT NAME''
      in if document_type = ''petition'' then
           ''IN THE '' @ court @ ''\<newline>\<newline>'' @ case_type @ ''\<newline>\<newline>IN THE MATTER OF:\<newline>'' @ petitioner
             @ '' ... PETITIONER\<newline>\<newline>VERSUS\<newline>\<newline>'' @ respondent @ '' ... RESPONDENT''
         else if document_type = ''reply'' \<or> document_type = ''written_statement'' then
           ''IN THE '' @ court @ ''\<newline>\<newline>'' @ case_type @ ''\<newline>\<newline>IN THE MATTER OF:\<newline>'' @ petitioner
             @ '' ... PETITIONER/PLAINTIFF\<newline>\<newline>VERSUS\<newline>\<newline>'' @ respondent
             @ '' ... RESPONDENT/DEFENDANT''
         else if document_type = ''rejoinder'' then
           ''IN THE '' @ court @ ''\<newline>\<newline>'' @ case_type @ ''\<newline>\<newline>IN THE MATTER OF:\<newline>'' @ petitioner
             @ '' ... PETITIONER/PLAINTIFF\<newline>\<newline>VERSUS\<newline>\<newline>'' @ respondent
             @ '' ... RESPONDENT/DEFENDANT\<newline>\<newline>REJOINDER ON BEHALF OF THE PETITIONER/PLAINTIFF''
         else
           ''IN THE MATTER OF:\<newline>'' @ petitioner @ '' ... PETITIONER\<newline>\<newline>VERSUS\<newline>\<newline>'' @ respondent
             @ '' ... RESPONDENT'')"

definition party_details :: "string \<Rightarrow> string list \<Rightarrow> string" where
  \<comment> \<open>the description of a party, as a company when an organization's name occurs in it\<close>
  "party_details party orgs =
     (if list_ex (\<lambda>org. contains org party) orgs
      then party @ '', a company/organization registered under the laws of India, having its registered office at [ADDRESS].''
      else party @ '', aged about [AGE] years, resident of [ADDRESS].'')"

definition generate_parties_section :: "string \<Rightarrow> entities \<Rightarrow> info \<Rightarrow> string" where
  "generate_parties_section document_type ents info =
     (case override info ''parties'' of Some text \<Rightarrow> text | None \<Rightarrow>
      let pp = dict_get (potential_parties ents) Map.empty;
          petitioners = py_or (dict_get (pp ''petitioners'') []) (dict_get (pp ''plaintiffs'') []);
          respondents = py_or (dict_get (pp ''respondents'') []) (dict_get (pp ''defendants'') []);
          orgs = dict_get (organizations ents) [];
          parties_text =
            (case petitioners of
               petitioner # _ \<Rightarrow>
                 (if document_type \<in> set [''petition'', ''rejoinder'']
                  then ''1. The Petitioner is '' else ''1. The Plaintiff is '')
                 @ party_details petitioner orgs @ ''\<newline>\<newline>''
             | [] \<Rightarrow> ''1. The Petitioner/Plaintiff details: [TO BE FILLED]\<newline>\<newline>'')
      in parties_text @
           (case respondents of
              respondent # _ \<Rightarrow>
                (if document_type \<in> set [''petition'', ''rejoinder'']
                 then ''2. The Respondent is '' else ''2. The Defendant is '')
                @ party_details respondent orgs
            | [] \<Rightarrow> ''2. The Respondent/Defendant details: [TO BE FILLED]''))"

definition generate_jurisdiction_section :: "brief_analysis \<Rightarrow> entities \<Rightarrow> info \<Rightarrow> string" where
  "generate_jurisdiction_section ba ents info =
     (case override info ''jurisdiction'' of Some text \<Rightarrow> text | None \<Rightarrow>
      let location = first_or (dict_get (locations ents) []) ''[LOCATION]'';
          ds = dict_get (domains ba) [''general'']
      in if ''criminal'' \<in> set ds then
           ''This Hon'ble Court has jurisdiction to try and entertain this petition as the alleged offence occurred within the territorial jurisdiction of this Court at ''
             @ location @ ''.''
         else if ''civil'' \<in> set ds then
           ''This Hon'ble Court has jurisdiction to try and entertain this suit as the subject matter of the dispute is situated within the territorial jurisdiction of this Court at ''
             @ location @ '', and the cause of action arose within the jurisdiction of this Court.''
         else if ''constitutional'' \<in> set ds then
           ''This Hon'ble Court has jurisdiction to entertain this petition under Article 226 of the Constitution of India as the cause of action arose within the territorial jurisdiction of this Court.''
         else
           ''This Hon'ble Court has jurisdiction to try and entertain this matter as the cause of action arose within the territorial jurisdiction of this Court at ''
             @ location @ ''.'')"

definition numbered :: "nat \<Rightarrow> string list \<Rightarrow> string" where
  \<comment> \<open>\<^verbatim>\<open>for i, x in enumerate(xs, start): text += f"{i}. {x}\n\n"\<close>\<close>
  "numbered start xs =
     concat (map (\<lambda>(i, x). str_nat i @ ''. '' @ x @ ''\<newline>\<newline>'') (enumerate start xs))"

definition generate_facts_section ::
  "(string \<Rightarrow> string list) \<Rightarrow> string \<Rightarrow> brief_analysis \<Rightarrow> entities \<Rightarrow> info \<Rightarrow> string" where
  "generate_facts_section sent_tokenize document_type ba ents info =
     (case override info ''facts'' of Some text \<Rightarrow> text | None \<Rightarrow>
      let ds = dict_get (dates ents) [];
          mvs = dict_get (monetary_values ents) [];
          summ = dict_get (summary ba) ''''
      in if summ = [] then ''The facts of the case are as follows: [FACTS TO BE FILLED]''
         else
           let sentences = sent_tokenize summ;
               facts_text = ''The facts of the case are as follows:\<newline>\<newline>'';
               facts_text = facts_text @ numbered 1 sentences;
               facts_text =
                 (if ds \<noteq> [] then
                    facts_text @ str_nat (length sentences + 1)
                      @ ''. The relevant dates in this matter are: '' @ join '', '' (take 3 ds)
                      @ ''.\<newline>\<newline>''
                  else facts_text);
               facts_text =
                 (if mvs \<noteq> [] \<and> (''civil'' \<in> set (dict_get (domains ba) [])
                                    \<or> contains ''contract'' (lower summ)) then
                    facts_text
                      @ str_nat (length sentences + (if ds \<noteq> [] then 1 else 0) + 1)
                      @ ''. The monetary value involved in this dispute is approximately ''
                      @ join '' and '' (take 2 mvs) @ ''.\<newline>\<newline>''
                  else facts_text)
           in facts_text)"

definition generate_legal_provisions_section :: "law_section list \<Rightarrow> info \<Rightarrow> string" where
  "generate_legal_provisions_section law_sections info =
     (case override info ''legal_provisions'' of Some text \<Rightarrow> text | None \<Rightarrow>
      if law_sections = [] then
        ''The following legal provisions are applicable to this case: [TO BE FILLED]''
      else
        ''The following legal provisions are applicable to this case:\<newline>\<newline>''
          @ concat (map (\<lambda>(i, s).
              str_nat i @ ''. '' @ title s @ '' - Section '' @ sectionNumber s @ '':\<newline>''
                @ ''   '' @ content s @ ''\<newline>\<newline>'') (enumerate 1 law_sections)))"

definition generate_grounds_section ::
  "analysis \<Rightarrow> law_section list \<Rightarrow> case_history list \<Rightarrow> info \<Rightarrow> string" where
  "generate_grounds_section an law_sections case_histories info =
     (case override info ''grounds'' of Some text \<Rightarrow> text | None \<Rightarrow>
      let args = dict_get (arguments an) [];
          grounds_text = ''The petition is filed on the following grounds:\<newline>\<newline>'';
          grounds_text = grounds_text @ numbered 1 args;
          grounds_text = grounds_text @ concat (map (\<lambda>(i, s).
              str_nat i @ ''. As per '' @ title s @ '' Section '' @ sectionNumber s @ '', ''
                @ ''which states that '' @ [CHR 0x27] @ (if length (content s) > 150
                                              then take 150 (content s) @ ''...'' else content s)
                @ [CHR 0x27] @ '', the petitioner has a valid claim.\<newline>\<newline>'')
              (enumerate (length args + 1) (take 2 law_sections)));
          grounds_text = grounds_text @ concat (map (\<lambda>(i, c).
              str_nat i @ ''. The Hon'ble Court in the case of '' @ parties c @ '' ('' @ citation c
                @ '') has held that '' @ holdings c
                @ '' This precedent directly applies to the present case.\<newline>\<newline>'')
              (enumerate (length args + length (take 2 law_sections) + 1) (take 2 case_histories)))
      in grounds_text)"

fun prayer_recommendations :: "nat \<Rightarrow> string list \<Rightarrow> string" where
  \<comment> \<open>the loop over \<^verbatim>\<open>recommendations[:2]\<close>, with its counter \<^verbatim>\<open>rec_index\<close>\<close>
  "prayer_recommendations rec_index [] = []"
| "prayer_recommendations rec_index (r # rest) =
     (if contains ''prayer'' (lower r) \<or> contains ''relief'' (lower r)
      then str_nat rec_index @ ''. '' @ r @ ''\<newline>\<newline>'' @ prayer_recommendations (rec_index + 1) rest
      else prayer_recommendations rec_index rest)"

definition prayer_reliefs :: "string \<Rightarrow> string list \<Rightarrow> string" where
  \<comment> \<open>the two numbered reliefs chosen by legal domain and document type\<close>
  "prayer_reliefs document_type ds =
     (if ''criminal'' \<in> set ds then
        (if document_type = ''petition'' then
           ''1. Direct the respondent to register an FIR and conduct a fair investigation into the matter;\<newline>\<newline>''
           @ ''2. Grant compensation to the petitioner for the losses suffered;\<newline>\<newline>''
         else if document_type \<in> set [''reply'', ''written_statement''] then
           ''1. Dismiss the petition/complaint as it is devoid of merits;\<newline>\<newline>''
           @ ''2. Exonerate the respondent/defendant from all charges;\<newline>\<newline>''
         else [])
      else if ''civil'' \<in> set ds then
        (if document_type = ''petition'' then
           ''1. Declare that the petitioner is entitled to the reliefs claimed;\<newline>\<newline>''
           @ ''2. Direct the respondent to pay damages/compensation as deemed fit by this Hon'ble Court;\<newline>\<newline>''
         else if document_type \<in> set [''reply'', ''written_statement''] then
           ''1. Dismiss the suit with costs as it is devoid of merits;\<newline>\<newline>''
           @ ''2. Declare that the plaintiff is not entitled to any of the reliefs claimed;\<newline>\<newline>''
         else [])
      else if ''constitutional'' \<in> set ds then
        (if document_type = ''petition'' then
           ''1. Issue a writ of mandamus or any other appropriate writ directing the respondent to perform its statutory duties;\<newline>\<newline>''
           @ ''2. Declare the actions of the respondent as illegal, arbitrary, and violative of the petitioner's fundamental rights;\<newline>\<newline>''
         else if document_type \<in> set [''reply'', ''written_statement''] then
           ''1. Dismiss the writ petition as it is not maintainable;\<newline>\<newline>''
           @ ''2. Declare that the respondent has acted within the framework of law;\<newline>\<newline>''
         else [])
      else
        (if document_type = ''petition'' then
           ''1. Grant the reliefs as prayed for in the petition;\<newline>\<newline>''
           @ ''2. Award costs of the proceedings to the petitioner;\<newline>\<newline>''
         else if document_type \<in> set [''reply'', ''written_statement''] then
           ''1. Dismiss the petition/suit with costs;\<newline>\<newline>''
           @ ''2. Grant such other relief as deemed fit in favor of the respondent/defendant;\<newline>\<newline>''
         else []))"

definition generate_prayer_section ::
  "string \<Rightarrow> analysis \<Rightarrow> brief_analysis \<Rightarrow> info \<Rightarrow> string" where
  "generate_prayer_section document_type an ba info =
     (case override info ''prayer'' of Some text \<Rightarrow> text | None \<Rightarrow>
      let ds = dict_get (domains ba) [''general''];
          recs = dict_get (recommendations an) [];
          prayer_text = ''In light of the facts and circumstances of the case, it is most respectfully prayed that this Hon'ble Court may be pleased to:\<newline>\<newline>'';
          prayer_text = prayer_text @ prayer_reliefs document_type ds;
          prayer_text = prayer_text @ prayer_recommendations 3 (take 2 recs)
      in prayer_text @ str_nat (count_sub '';\<newline>\<newline>'' prayer_text + 1)
           @ ''. Pass any other order or direction as this Hon'ble Court may deem fit and proper in the interest of justice.'')"

text \<open>
  The verification builder indexes a list without testing it:
  \<^verbatim>\<open>potential_parties.get("petitioners", ["[PETITIONER NAME]"])[0]\<close> raises
  \<^verbatim>\<open>IndexError\<close> when the key is there with an empty list.
\<close>

definition first_item :: "string list \<Rightarrow> draft_error + string" where
  "first_item xs = (case xs of [] \<Rightarrow> Inl IndexError | x # _ \<Rightarrow> Inr x)"

definition generate_verification_section ::
  "string \<Rightarrow> string \<Rightarrow> entities \<Rightarrow> info \<Rightarrow> draft_error + string" where
  "generate_verification_section today document_type ents info =
     (case override info ''verification'' of Some text \<Rightarrow> Inr text | None \<Rightarrow>
      let location = first_or (dict_get (locations ents) []) ''[PLACE]'';
          pp = dict_get (potential_parties ents) Map.empty
      in if document_type \<in> set [''petition'', ''rejoinder''] then
           (case first_item (dict_get (pp ''petitioners'') [''[PETITIONER NAME]'']) of
              Inl e \<Rightarrow> Inl e
            | Inr verifier \<Rightarrow> Inr
               (''Verified at '' @ location @ '' on this '' @ today
                 @ '' that the contents of the above petition are true and correct to the best of my knowledge and belief and nothing material has been concealed therefrom.\<newline>\<newline>''
                 @ verifier @ ''\<newline>PETITIONER''))
         else if document_type \<in> set [''reply'', ''written_statement''] then
           (case first_item (dict_get (pp ''respondents'') [''[RESPONDENT NAME]'']) of
              Inl e \<Rightarrow> Inl e
            | Inr verifier \<Rightarrow> Inr
               (''Verified at '' @ location @ '' on this '' @ today
                 @ '' that the contents of the above reply are true and correct to the best of my knowledge and belief and nothing material has been concealed therefrom.\<newline>\<newline>''
                 @ verifier @ ''\<newline>RESPONDENT''))
         else Inr
           (''Verified at '' @ location @ '' on this '' @ today
             @ '' that the contents of the above document are true and correct to the best of my knowledge and belief and nothing material has been concealed therefrom.\<newline>\<newline>[NAME]\<newline>[DESIGNATION]''))"

definition generate_preliminary_objections :: "analysis \<Rightarrow> info \<Rightarrow> string" where
  "generate_preliminary_objections an info =
     (case override info ''preliminary_objections'' of Some text \<Rightarrow> text | None \<Rightarrow>
      let chs = dict_get (challenges an) [];
          objections_text = ''The respondent/defendant raises the following preliminary objections:\<newline>\<newline>''
      in if chs \<noteq> [] then objections_text @ numbered 1 chs
         else objections_text
           @ ''1. The petition/plaint is not maintainable in law and on facts.\<newline>\<newline>''
           @ ''2. The petition/plaint is barred by limitation.\<newline>\<newline>''
           @ ''3. The petitioner/plaintiff has no locus standi to file the present petition/suit.\<newline>\<newline>''
           @ ''4. The petition/plaint does not disclose any cause of action against the respondent/defendant.\<newline>\<newline>'')"

definition generate_facts_rebuttal :: "brief_analysis \<Rightarrow> info \<Rightarrow> string" where
  "generate_facts_rebuttal ba info =
     (case override info ''facts_rebuttal'' of Some text \<Rightarrow> text | None \<Rightarrow>
      let rebuttal_text = ''The respondent/defendant submits the following in response to the alleged facts:\<newline>\<newline>'';
          rebuttal_text = rebuttal_text
            @ ''1. The facts stated in the petition/plaint are denied as incorrect and misleading, except those that are specifically admitted herein.\<newline>\<newline>'';
          rebuttal_text = rebuttal_text
            @ ''2. The respondent/defendant denies all allegations of wrongdoing or liability as alleged in the petition/plaint.\<newline>\<newline>'';
          ds = dict_get (domains ba) [''general'']
      in if ''criminal'' \<in> set ds then rebuttal_text
           @ ''3. The allegations of criminal conduct are vehemently denied as false and baseless. The respondent/defendant has not committed any offense as alleged.\<newline>\<newline>''
           @ ''4. The complaint is filed with malafide intentions to harass and pressurize the respondent/defendant.\<newline>\<newline>''
         else if ''civil'' \<in> set ds then rebuttal_text
           @ ''3. The alleged breach of contract/agreement is denied. The respondent/defendant has fulfilled all obligations as per the terms of the agreement.\<newline>\<newline>''
           @ ''4. The petitioner/plaintiff has failed to disclose material facts and has approached this Hon'ble Court with unclean hands.\<newline>\<newline>''
         else if ''constitutional'' \<in> set ds then rebuttal_text
           @ ''3. The respondent has acted within the framework of law and constitutional provisions. No fundamental right of the petitioner has been violated.\<newline>\<newline>''
           @ ''4. The petitioner has alternative remedies available which have not been exhausted before approaching this Hon'ble Court.\<newline>\<newline>''
         else rebuttal_text)"

definition counter_argument :: "string \<Rightarrow> string" where
  "counter_argument arg =
     (let counter_arg = str_replace ''establishes'' ''fails to establish'' arg;
          counter_arg = str_replace ''clearly'' ''allegedly'' counter_arg;
          counter_arg = str_replace ''proves'' ''attempts to prove'' counter_arg;
          counter_arg = str_replace ''demonstrates'' ''claims to demonstrate'' counter_arg
      in counter_arg)"

definition generate_legal_arguments ::
  "analysis \<Rightarrow> law_section list \<Rightarrow> case_history list \<Rightarrow> info \<Rightarrow> string" where
  "generate_legal_arguments an law_sections case_histories info =
     (case override info ''legal_arguments'' of Some text \<Rightarrow> text | None \<Rightarrow>
      let arguments_text = ''The following legal arguments are submitted for consideration:\<newline>\<newline>'';
          counter_arguments = map counter_argument (dict_get (arguments an) []);
          arguments_text = arguments_text @ numbered 1 (take 3 counter_arguments);
          arguments_text = arguments_text @ concat (map (\<lambda>(i, s).
              str_nat i @ ''. With respect to '' @ title s @ '' Section '' @ sectionNumber s @ '', ''
                @ ''the correct interpretation does not support the petitioner's/plaintiff's claim because [SPECIFIC LEGAL REASONING].\<newline>\<newline>'')
              (enumerate (length (take 3 counter_arguments) + 1) (take 2 law_sections)));
          arguments_text = arguments_text @ concat (map (\<lambda>(i, c).
              str_nat i @ ''. The case of '' @ parties c @ '' ('' @ citation c
                @ '') cited by the petitioner/plaintiff is distinguishable from the present case because the facts and circumstances are materially different.\<newline>\<newline>'')
              (enumerate (length (take 3 counter_arguments) + length (take 2 law_sections) + 1)
                 (take 2 case_histories)))
      in arguments_text)"

definition generate_rebuttal_to_reply :: "analysis \<Rightarrow> info \<Rightarrow> string" where
  "generate_rebuttal_to_reply an info =
     (case override info ''rebuttal_to_reply'' of Some text \<Rightarrow> text | None \<Rightarrow>
      let rebuttal_text = ''The petitioner/plaintiff submits the following in response to the reply/written statement:\<newline>\<newline>'';
          rebuttal_text = rebuttal_text
            @ ''1. The preliminary objections raised in the reply/written statement are misconceived and liable to be rejected.\<newline>\<newline>'';
          rebuttal_text = rebuttal_text
            @ ''2. The respondent/defendant has failed to specifically deny the material allegations in the petition/plaint, which amounts to admission of those facts.\<newline>\<newline>'';
          chs = dict_get (challenges an) []
      in rebuttal_text @ concat (map (\<lambda>(i, challenge).
           str_nat i @ ''. The respondent's/defendant's contention that '' @ challenge
             @ '' is incorrect and misleading because [SPECIFIC REBUTTAL].\<newline>\<newline>'')
           (enumerate 3 (take 2 chs))))"

definition generate_additional_facts :: "brief_analysis \<Rightarrow> info \<Rightarrow> string" where
  "generate_additional_facts ba info =
     (case override info ''additional_facts'' of Some text \<Rightarrow> text | None \<Rightarrow>
      let additional_facts_text = ''The petitioner/plaintiff submits the following additional facts that have come to light:\<newline>\<newline>'';
          additional_facts_text = additional_facts_text
            @ ''1. After filing the petition/plaint, the petitioner/plaintiff has discovered additional evidence that further strengthens the case.\<newline>\<newline>'';
          additional_facts_text = additional_facts_text
            @ ''2. The respondent/defendant has continued with the alleged illegal activities even after notice of this proceeding.\<newline>\<newline>'';
          ds = dict_get (domains ba) [''general'']
      in if ''criminal'' \<in> set ds then additional_facts_text
           @ ''3. New witnesses have come forward who can testify to the respondent's/defendant's involvement in the alleged offense.\<newline>\<newline>''
         else if ''civil'' \<in> set ds then additional_facts_text
           @ ''3. Additional documents have been discovered that conclusively prove the breach of contract/agreement by the respondent/defendant.\<newline>\<newline>''
         else if ''constitutional'' \<in> set ds then additional_facts_text
           @ ''3. Recent actions by the respondent further demonstrate the pattern of constitutional violations alleged in the petition.\<newline>\<newline>''
         else additional_facts_text)"

definition party_or_person :: "entities \<Rightarrow> string \<Rightarrow> string" where
  \<comment> \<open>the first petitioner, else the first plaintiff, else the first person, else a placeholder\<close>
  "party_or_person ents placeholder =
     (let pp = dict_get (potential_parties ents) Map.empty;
          ps = dict_get (persons ents) []
      in case dict_get (pp ''petitioners'') [] of p # _ \<Rightarrow> p | [] \<Rightarrow>
         case dict_get (pp ''plaintiffs'') [] of p # _ \<Rightarrow> p | [] \<Rightarrow>
         case ps of p # _ \<Rightarrow> p | [] \<Rightarrow> placeholder)"

definition generate_deponent_details :: "entities \<Rightarrow> info \<Rightarrow> string" where
  "generate_deponent_details ents info =
     (case override info ''deponent_details'' of Some text \<Rightarrow> text | None \<Rightarrow>
      let deponent = party_or_person ents ''[DEPONENT NAME]'';
          location = first_or (dict_get (locations ents) []) ''[ADDRESS]''
      in ''I, '' @ deponent @ '', aged about [AGE] years, [OCCUPATION], [NATIONALITY], resident of ''
           @ location @ '', do hereby solemnly affirm and declare as under:'')"

definition generate_affidavit_statements ::
  "(string \<Rightarrow> string list) \<Rightarrow> brief_analysis \<Rightarrow> info \<Rightarrow> string" where
  "generate_affidavit_statements sent_tokenize ba info =
     (case override info ''statements'' of Some text \<Rightarrow> text | None \<Rightarrow>
      let summ = dict_get (summary ba) '''';
          sentences = sent_tokenize summ;
          statements_text = numbered 1 sentences
      in statements_text
           @ str_nat (length sentences + 1)
           @ ''. I am well conversant with the facts and circumstances of the case and am competent to swear this affidavit.\<newline>\<newline>''
           @ str_nat (length sentences + 2)
           @ ''. I have read and understood the contents of the accompanying petition/application and the same are true and correct to my knowledge.\<newline>\<newline>''
           @ str_nat (length sentences + 3)
           @ ''. The annexures attached to the petition/application are true copies of their respective originals.\<newline>\<newline>'')"

definition generate_affidavit_declaration :: "info \<Rightarrow> string" where
  "generate_affidavit_declaration info =
     (case override info ''declaration'' of Some text \<Rightarrow> text | None \<Rightarrow>
      ''I, the deponent above named, do hereby verify that the contents of this affidavit are true and correct to my knowledge, no part of it is false and nothing material has been concealed therefrom.'')"

definition generate_attestation :: "string \<Rightarrow> info \<Rightarrow> string" where
  "generate_attestation today info =
     (case override info ''attestation'' of Some text \<Rightarrow> text | None \<Rightarrow>
      ''Solemnly affirmed and signed before me on this '' @ today
        @ '' at [PLACE].\<newline>\<newline>NOTARY PUBLIC/OATH COMMISSIONER'')"

definition generate_sender_details :: "entities \<Rightarrow> info \<Rightarrow> string" where
  "generate_sender_details ents info =
     (case override info ''sender_details'' of Some text \<Rightarrow> text | None \<Rightarrow>
      let sender = party_or_person ents ''[SENDER NAME]''
      in ''FROM:\<newline>'' @ sender
           @ ''\<newline>[ADDRESS]\<newline>[CONTACT DETAILS]\<newline>\<newline>THROUGH:\<newline>[ADVOCATE NAME]\<newline>[ADVOCATE ADDRESS]\<newline>[ADVOCATE CONTACT DETAILS]'')"

definition generate_recipient_details :: "entities \<Rightarrow> info \<Rightarrow> string" where
  "generate_recipient_details ents info =
     (case override info ''recipient_details'' of Some text \<Rightarrow> text | None \<Rightarrow>
      let pp = dict_get (potential_parties ents) Map.empty;
          recipient =
            (case dict_get (pp ''respondents'') [] of r # _ \<Rightarrow> r | [] \<Rightarrow>
             case dict_get (pp ''defendants'') [] of r # _ \<Rightarrow> r | [] \<Rightarrow> ''[RECIPIENT NAME]'')
      in ''TO:\<newline>'' @ recipient @ ''\<newline>[ADDRESS]\<newline>[CONTACT DETAILS]'')"

definition generate_notice_subject :: "brief_analysis \<Rightarrow> info \<Rightarrow> string" where
  "generate_notice_subject ba info =
     (case override info ''subject'' of Some text \<Rightarrow> text | None \<Rightarrow>
      let ds = dict_get (domains ba) [''general''];
          as = dict_get (acts ba) [];
          subject_text = ''SUBJECT: '';
          subject_text =
            (if ''criminal'' \<in> set ds then subject_text @ ''LEGAL NOTICE FOR FILING CRIMINAL COMPLAINT''
             else if ''civil'' \<in> set ds then
               (if contains ''contract'' (lower (join '' '' ds))
                then subject_text @ ''LEGAL NOTICE FOR BREACH OF CONTRACT AND RECOVERY OF DAMAGES''
                else subject_text @ ''LEGAL NOTICE FOR CIVIL DISPUTE'')
             else if ''corporate'' \<in> set ds then subject_text @ ''LEGAL NOTICE FOR CORPORATE DISPUTE''
             else subject_text @ ''LEGAL NOTICE'')
      in case as of [] \<Rightarrow> subject_text | a # _ \<Rightarrow> subject_text @ '' UNDER '' @ a)"

definition generate_notice_demand :: "analysis \<Rightarrow> info \<Rightarrow> string" where
  "generate_notice_demand an info =
     (case override info ''demand'' of Some text \<Rightarrow> text | None \<Rightarrow>
      let recs = dict_get (recommendations an) [];
          demand_text = ''In view of the above facts and circumstances, you are hereby called upon to:\<newline>\<newline>''
      in if recs \<noteq> [] then demand_text @ numbered 1 (take 3 recs)
         else demand_text
           @ ''1. [SPECIFIC DEMAND 1]\<newline>\<newline>''
           @ ''2. [SPECIFIC DEMAND 2]\<newline>\<newline>''
           @ ''3. Pay the legal costs of this notice.\<newline>\<newline>'')"

definition generate_notice_timeline :: "info \<Rightarrow> string" where
  "generate_notice_timeline info =
     (case override info ''timeline'' of Some text \<Rightarrow> text | None \<Rightarrow>
      ''You are hereby given [NUMBER] days from the receipt of this notice to comply with the above demands, failing which my client will be constrained to initiate appropriate legal proceedings against you, both civil and criminal, in the appropriate forum, at your risk and cost.'')"

definition generate_notice_consequences :: "law_section list \<Rightarrow> info \<Rightarrow> string" where
  "generate_notice_consequences law_sections info =
     (case override info ''consequences'' of Some text \<Rightarrow> text | None \<Rightarrow>
      let consequences_text = ''Please note that if you fail to comply with the above demands within the stipulated time, you will be liable for the following consequences:\<newline>\<newline>'';
          consequences_text = consequences_text @ concat (map (\<lambda>(i, s).
              str_nat i @ ''. Legal action under '' @ title s @ '' Section '' @ sectionNumber s
                @ ''.\<newline>\<newline>'') (enumerate 1 (take 2 law_sections)))
      in consequences_text
           @ str_nat (length (take 2 law_sections) + 1)
           @ ''. Payment of damages, compensation, and legal costs.\<newline>\<newline>''
           @ str_nat (length (take 2 law_sections) + 2)
           @ ''. Any other legal remedy available under the law.\<newline>\<newline>'')"

subsection \<open>Assembling the sections\<close>

definition fill :: "string \<Rightarrow> string \<Rightarrow> (string \<times> string) list \<Rightarrow> (string \<times> string) list" where
  \<comment> \<open>\<^verbatim>\<open>if key in sections: sections[key] = text\<close>\<close>
  "fill key text sections =
     (if map_of sections key \<noteq> None then AList.update key text sections else sections)"

definition document_specific_sections ::
  "string \<Rightarrow> (string \<Rightarrow> string list) \<Rightarrow> string \<Rightarrow> brief_analysis \<Rightarrow> law_section list
     \<Rightarrow> case_history list \<Rightarrow> analysis \<Rightarrow> entities \<Rightarrow> info
     \<Rightarrow> (string \<times> string) list \<Rightarrow> (string \<times> string) list" where
  "document_specific_sections today sent_tokenize document_type ba law_sections case_histories
     an ents info sections =
     (if document_type = ''petition'' then
        (let sections = fill ''jurisdiction'' (generate_jurisdiction_section ba ents info) sections;
             sections = fill ''grounds''
               (generate_grounds_section an law_sections case_histories info) sections
         in sections)
      else if document_type = ''reply'' \<or> document_type = ''written_statement'' then
        (let sections = fill ''preliminary_objections''
               (generate_preliminary_objections an info) sections;
             sections = fill ''facts_rebuttal'' (generate_facts_rebuttal ba info) sections;
             sections = fill ''legal_arguments''
               (generate_legal_arguments an law_sections case_histories info) sections
         in sections)
      else if document_type = ''rejoinder'' then
        (let sections = fill ''rebuttal_to_reply'' (generate_rebuttal_to_reply an info) sections;
             sections = fill ''additional_facts'' (generate_additional_facts ba info) sections;
             sections = fill ''legal_arguments''
               (generate_legal_arguments an law_sections case_histories info) sections
         in sections)
      else if document_type = ''affidavit'' then
        (let sections = fill ''deponent_details'' (generate_deponent_details ents info) sections;
             sections = fill ''statements''
               (generate_affidavit_statements sent_tokenize ba info) sections;
             sections = fill ''declaration'' (generate_affidavit_declaration info) sections;
             sections = fill ''attestation'' (generate_attestation today info) sections
         in sections)
      else if document_type = ''legal_notice'' then
        (let sections = fill ''sender_details'' (generate_sender_details ents info) sections;
             sections = fill ''recipient_details'' (generate_recipient_details ents info) sections;
             sections = fill ''subject'' (generate_notice_subject ba info) sections;
             sections = fill ''demand'' (generate_notice_demand an info) sections;
             sections = fill ''timeline'' (generate_notice_timeline info) sections;
             sections = fill ''consequences''
               (generate_notice_consequences law_sections info) sections
         in sections)
      else sections)"

text \<open>
  The sections common to several document types come first, the verification last among
  them; it is the only builder that can raise, and when it does nothing is returned.
\<close>

definition generate_document_sections ::
  "string \<Rightarrow> (string \<Rightarrow> string list) \<Rightarrow> string \<Rightarrow> brief_analysis \<Rightarrow> law_section list
     \<Rightarrow> case_history list \<Rightarrow> analysis \<Rightarrow> entities \<Rightarrow> info option
     \<Rightarrow> draft_error + (string \<times> string) list" where
  "generate_document_sections today sent_tokenize document_type ba law_sections case_histories
     an ents additional_info =
     (let sections = map (\<lambda>section. (section, '''')) (dict_get (document_structures document_type) []);
          info = dict_get additional_info Map.empty;
          sections = fill ''title'' (generate_title document_type ba ents info) sections;
          sections = fill ''parties'' (generate_parties_section document_type ents info) sections;
          sections = fill ''facts''
            (generate_facts_section sent_tokenize document_type ba ents info) sections;
          sections = fill ''legal_provisions''
            (generate_legal_provisions_section law_sections info) sections;
          sections = fill ''prayer'' (generate_prayer_section document_type an ba info) sections
      in if map_of sections ''verification'' \<noteq> None then
           (case generate_verification_section today document_type ents info of
              Inl e \<Rightarrow> Inl e
            | Inr text \<Rightarrow> Inr (document_specific_sections today sent_tokenize document_type ba
                law_sections case_histories an ents info
                (AList.update ''verification'' text sections)))
         else Inr (document_specific_sections today sent_tokenize document_type ba
                law_sections case_histories an ents info sections))"

subsection \<open>Drafting a case file\<close>

text \<open>
  What the agent takes from outside: the clock, NLTK's sentence splitter, the entity
  extraction (spaCy and regular expressions over the brief) and the template filler.
\<close>

record agent_env =
  today :: string
  now_iso :: string
  sent_tokenize :: "string \<Rightarrow> string list"
  extract_entities :: "string \<Rightarrow> entities"
  fill_template :: "string \<Rightarrow> (string \<times> string) list \<Rightarrow> string"

record metadata =
  document_type :: string
  generated_at :: string
  based_on_brief :: string
  law_sections_used :: "string list"
  case_histories_used :: "string list"

record drafted_document =
  doc_content :: string
  doc_metadata :: metadata
  doc_sections :: "(string \<times> string) list"

definition draft_case_file ::
  "agent_env \<Rightarrow> string \<Rightarrow> brief_analysis \<Rightarrow> law_section list \<Rightarrow> case_history list
     \<Rightarrow> analysis \<Rightarrow> string \<Rightarrow> info option \<Rightarrow> draft_error + drafted_document" where
  "draft_case_file env doc_type ba law_sections case_histories an brief_content additional_info =
     (if doc_type \<notin> set template_names
      then Inl (ValueError (''Unsupported document type: '' @ doc_type))
      else
        let ents = extract_entities env brief_content
        in case generate_document_sections (today env) (sent_tokenize env) doc_type ba
                  law_sections case_histories an ents additional_info of
             Inl e \<Rightarrow> Inl e
           | Inr document_sections \<Rightarrow>
               let document_content = fill_template env doc_type document_sections;
                   md = \<lparr>document_type = doc_type,
                         generated_at = now_iso env,
                         based_on_brief =
                           (if length brief_content > 100 then take 100 brief_content @ ''...''
                            else brief_content),
                         law_sections_used =
                           map (\<lambda>s. title s @ '' Section '' @ sectionNumber s) (take 3 law_sections),
                         case_histories_used =
                           map (\<lambda>c. parties c @ '' ('' @ citation c @ '')'') (take 3 case_histories)\<rparr>
               in Inr \<lparr>doc_content = document_content, doc_metadata = md,
                        doc_sections = document_sections\<rparr>)"

section \<open>Case file drafter of the API (api/case\_file\_drafter.py)\<close>

text \<open>
  The parties, facts, provisions, precedents and arguments that the drafter extracts from
  the brief and the analysis results are the inputs here, with the options. The
  environment holds the current date in the four formats the drafter prints and Python's
  \<^verbatim>\<open>str.upper\<close>, the upper-casing of Unicode text, which is a library function
  and a parameter here.
\<close>

record api_parties =
  petitioner :: string
  respondent :: string

record provision =
  prov_act :: string
  prov_section :: string
  prov_content :: string

record precedent =
  prec_citation :: string
  prec_parties :: string
  prec_holdings :: string

record drafter_env =
  date_dmy :: string
  date_day :: string
  date_month_year :: string
  date_long :: string
  str_upper :: "string \<Rightarrow> string"

record options =
  opt_document_type :: "string option"
  opt_court :: "string option"
  opt_include_arguments :: "bool option"
  opt_include_prayer :: "bool option"

record case_file =
  cf_title :: string
  cf_content :: string
  cf_document_type :: string
  cf_court :: string
  cf_date :: string
  cf_parties :: api_parties

definition generate_petition ::
  "drafter_env \<Rightarrow> api_parties
     \<Rightarrow> string list \<Rightarrow> provision list \<Rightarrow> precedent list
     \<Rightarrow> string list \<Rightarrow> string \<Rightarrow> bool \<Rightarrow> bool \<Rightarrow> string" where
  "generate_petition denv party_names facts legal_provisions case_precedents argument_list court include_arguments include_prayer =
     join ''\<newline>''
      ([''IN THE '' @ str_upper denv court,
        '''',
        ''PETITION NO. _____ OF _____'',
        '''',
        ''IN THE MATTER OF:'',
        '''',
        petitioner party_names,
        ''... PETITIONER'',
        '''',
        ''VERSUS'',
        '''',
        respondent party_names,
        ''... RESPONDENT'',
        '''',
        ''PETITION UNDER _____'',
        '''',
        ''MOST RESPECTFULLY SHOWETH:'',
        '''',
        ''1. FACTS OF THE CASE:'',
        '''']
       @ concat (map (\<lambda>(i, fact).
             [''   '' @ str_nat i @ ''. '' @ fact])
           (enumerate 1 facts))
       @ ['''',
        ''2. GROUNDS:'',
        '''']
       @ (if legal_provisions \<noteq> [] then
             [''   A. APPLICABLE LEGAL PROVISIONS:'',
              '''']
             @ concat (map (\<lambda>(i, provision).
                   [''      '' @ str_nat i @ ''. '' @ prov_act provision @ '', Section '' @ prov_section provision @ '':'',
                    ''         '' @ prov_content provision,
                    ''''])
                 (enumerate 1 legal_provisions))
         else [])
       @ (if case_precedents \<noteq> [] then
             [''   B. RELEVANT CASE LAW:'',
              '''']
             @ concat (map (\<lambda>(i, precedent).
                   [''      '' @ str_nat i @ ''. '' @ prec_parties precedent @ '' ('' @ prec_citation precedent @ ''):'',
                    ''         '' @ prec_holdings precedent,
                    ''''])
                 (enumerate 1 case_precedents))
         else [])
       @ (if include_arguments \<and> argument_list \<noteq> [] then
             [''   C. ARGUMENTS:'',
              '''']
             @ concat (map (\<lambda>(i, argument).
                   [''      '' @ str_nat i @ ''. '' @ argument])
                 (enumerate 1 argument_list))
             @ ['''']
         else [])
       @ (if include_prayer then
             [''3. PRAYER:'',
              '''',
              ''   In view of the facts and circumstances of the case and the grounds mentioned above,'',
              ''   it is most respectfully prayed that this Hon'ble Court may be pleased to:'',
              '''',
              ''   a) [SPECIFIC RELIEF SOUGHT]'',
              '''',
              ''   b) Pass any other order(s) as this Hon'ble Court may deem fit and proper in the'',
              ''      interest of justice.'',
              '''']
         else [])
       @ [''FILED BY:'',
        '''',
        '''',
        ''ADVOCATE FOR THE PETITIONER'',
        '''',
        ''PLACE: _____'',
        ''DATE: '' @ date_dmy denv])"

definition generate_reply ::
  "drafter_env \<Rightarrow> api_parties
     \<Rightarrow> string list \<Rightarrow> provision list \<Rightarrow> precedent list
     \<Rightarrow> string list \<Rightarrow> string \<Rightarrow> bool \<Rightarrow> string" where
  "generate_reply denv party_names facts legal_provisions case_precedents argument_list court include_arguments =
     join ''\<newline>''
      ([''IN THE '' @ str_upper denv court,
        '''',
        ''CASE NO. _____ OF _____'',
        '''',
        ''IN THE MATTER OF:'',
        '''',
        petitioner party_names,
        ''... PETITIONER/PLAINTIFF'',
        '''',
        ''VERSUS'',
        '''',
        respondent party_names,
        ''... RESPONDENT/DEFENDANT'',
        '''',
        ''REPLY ON BEHALF OF THE RESPONDENT/DEFENDANT'',
        '''',
        ''1. PRELIMINARY OBJECTIONS:'',
        '''',
        ''   The Respondent/Defendant submits the following preliminary objections:'',
        '''',
        ''   a) The petition/plaint is not maintainable in law and on facts.'',
        ''   b) The petition/plaint is barred by limitation.'',
        ''   c) The petition/plaint does not disclose any cause of action.'',
        '''',
        ''2. REPLY TO FACTS:'',
        '''']
       @ concat (map (\<lambda>(i, fact).
             [''   '' @ str_nat i @ ''. With reference to paragraph '' @ str_nat i @ '' of the petition/plaint, it is submitted that'',
              ''      '' @ fact @ '' - This is denied. The correct position is that [COUNTER FACT].'',
              ''''])
           (enumerate 1 facts))
       @ (if legal_provisions \<noteq> [] then
             [''3. APPLICABLE LEGAL PROVISIONS:'',
              '''']
             @ concat (map (\<lambda>(i, provision).
                   [''   '' @ str_nat i @ ''. '' @ prov_act provision @ '', Section '' @ prov_section provision @ '':'',
                    ''      The Petitioner/Plaintiff has misinterpreted this provision. The correct'',
                    ''      interpretation is that [INTERPRETATION].'',
                    ''''])
                 (enumerate 1 legal_provisions))
         else [])
       @ (if case_precedents \<noteq> [] then
             [''4. RELEVANT CASE LAW:'',
              '''']
             @ concat (map (\<lambda>(i, precedent).
                   [''   '' @ str_nat i @ ''. '' @ prec_parties precedent @ '' ('' @ prec_citation precedent @ ''):'',
                    ''      This case is distinguishable on facts as [DISTINCTION].'',
                    ''''])
                 (enumerate 1 case_precedents))
         else [])
       @ (if include_arguments \<and> argument_list \<noteq> [] then
             [''5. COUNTER ARGUMENTS:'',
              '''']
             @ concat (map (\<lambda>(i, argument).
                   [''   '' @ str_nat i @ ''. In response to the argument that '' @ argument @ '', it is submitted that'',
                    ''      [COUNTER ARGUMENT].''])
                 (enumerate 1 argument_list))
             @ ['''']
         else [])
       @ [''6. PRAYER:'',
        '''',
        ''   In view of the above submissions, it is most respectfully prayed that this Hon'ble'',
        ''   Court may be pleased to dismiss the petition/plaint with costs.'',
        '''',
        ''FILED BY:'',
        '''',
        '''',
        ''ADVOCATE FOR THE RESPONDENT/DEFENDANT'',
        '''',
        ''PLACE: _____'',
        ''DATE: '' @ date_dmy denv])"

definition generate_rejoinder ::
  "drafter_env \<Rightarrow> api_parties
     \<Rightarrow> string list \<Rightarrow> provision list \<Rightarrow> precedent list
     \<Rightarrow> string list \<Rightarrow> string \<Rightarrow> bool \<Rightarrow> string" where
  "generate_rejoinder denv party_names facts legal_provisions case_precedents argument_list court include_arguments =
     join ''\<newline>''
      ([''IN THE '' @ str_upper denv court,
        '''',
        ''CASE NO. _____ OF _____'',
        '''',
        ''IN THE MATTER OF:'',
        '''',
        petitioner party_names,
        ''... PETITIONER/PLAINTIFF'',
        '''',
        ''VERSUS'',
        '''',
        respondent party_names,
        ''... RESPONDENT/DEFENDANT'',
        '''',
        ''REJOINDER ON BEHALF OF THE PETITIONER/PLAINTIFF'',
        '''',
        ''1. INTRODUCTION:'',
        '''',
        ''   The Petitioner/Plaintiff submits this rejoinder to the reply filed by the'',
        ''   Respondent/Defendant and reiterates the submissions made in the petition/plaint.'',
        ''   The Petitioner/Plaintiff further submits as under:'',
        '''',
        ''2. REJOINDER TO PRELIMINARY OBJECTIONS:'',
        '''',
        ''   a) The objection that the petition/plaint is not maintainable is baseless as'',
        ''      [REASON].'',
        ''   b) The petition/plaint is well within the limitation period as [REASON].'',
        ''   c) The petition/plaint clearly discloses a cause of action as [REASON].'',
        '''',
        ''3. REJOINDER TO REPLY ON FACTS:'',
        '''']
       @ concat (map (\<lambda>(i, fact).
             [''   '' @ str_nat i @ ''. The Respondent/Defendant has denied the fact that '' @ fact @ ''.'',
              ''      This denial is false and misleading. The truth is that [EXPLANATION].'',
              ''''])
           (enumerate 1 facts))
       @ (if legal_provisions \<noteq> [] then
             [''4. CORRECT INTERPRETATION OF LEGAL PROVISIONS:'',
              '''']
             @ concat (map (\<lambda>(i, provision).
                   [''   '' @ str_nat i @ ''. '' @ prov_act provision @ '', Section '' @ prov_section provision @ '':'',
                    ''      The Respondent/Defendant has misinterpreted this provision. The correct'',
                    ''      interpretation, as submitted in the petition/plaint, is that [INTERPRETATION].'',
                    ''''])
                 (enumerate 1 legal_provisions))
         else [])
       @ (if case_precedents \<noteq> [] then
             [''5. APPLICABILITY OF CASE LAW:'',
              '''']
             @ concat (map (\<lambda>(i, precedent).
                   [''   '' @ str_nat i @ ''. '' @ prec_parties precedent @ '' ('' @ prec_citation precedent @ ''):'',
                    ''      The Respondent/Defendant's attempt to distinguish this case is misconceived.'',
                    ''      The ratio of this case is squarely applicable as [EXPLANATION].'',
                    ''''])
                 (enumerate 1 case_precedents))
         else [])
       @ (if include_arguments \<and> argument_list \<noteq> [] then
             [''6. REBUTTAL TO COUNTER ARGUMENTS:'',
              '''']
             @ concat (map (\<lambda>(i, argument).
                   [''   '' @ str_nat i @ ''. The Respondent/Defendant's counter to the argument that '' @ argument,
                    ''      is untenable because [REBUTTAL].''])
                 (enumerate 1 argument_list))
             @ ['''']
         else [])
       @ [''7. CONCLUSION:'',
        '''',
        ''   In view of the above submissions, the Petitioner/Plaintiff reiterates the prayer'',
        ''   made in the petition/plaint and requests this Hon'ble Court to grant the relief'',
        ''   sought therein.'',
        '''',
        ''FILED BY:'',
        '''',
        '''',
        ''ADVOCATE FOR THE PETITIONER/PLAINTIFF'',
        '''',
        ''PLACE: _____'',
        ''DATE: '' @ date_dmy denv])"

definition generate_written_statement ::
  "drafter_env \<Rightarrow> api_parties
     \<Rightarrow> string list \<Rightarrow> provision list \<Rightarrow> precedent list
     \<Rightarrow> string list \<Rightarrow> string \<Rightarrow> bool \<Rightarrow> string" where
  "generate_written_statement denv party_names facts legal_provisions case_precedents argument_list court include_arguments =
     join ''\<newline>''
      ([''IN THE '' @ str_upper denv court,
        '''',
        ''SUIT NO. _____ OF _____'',
        '''',
        ''IN THE MATTER OF:'',
        '''',
        petitioner party_names,
        ''... PLAINTIFF'',
        '''',
        ''VERSUS'',
        '''',
        respondent party_names,
        ''... DEFENDANT'',
        '''',
        ''WRITTEN STATEMENT ON BEHALF OF THE DEFENDANT'',
        '''',
        ''1. PRELIMINARY OBJECTIONS:'',
        '''',
        ''   The Defendant raises the following preliminary objections:'',
        '''',
        ''   a) This Hon'ble Court has no jurisdiction to try and entertain the present suit.'',
        ''   b) The suit is barred by limitation.'',
        ''   c) The plaint does not disclose any cause of action against the Defendant.'',
        ''   d) The suit is bad for non-joinder of necessary parties.'',
        '''',
        ''2. PARAGRAPH-WISE REPLY:'',
        '''']
       @ concat (map (\<lambda>(i, fact).
             [''   '' @ str_nat i @ ''. With reference to paragraph '' @ str_nat i @ '' of the plaint, it is submitted that'',
              ''      '' @ fact @ '' - This is denied. The correct position is that [COUNTER FACT].'',
              ''''])
           (enumerate 1 facts))
       @ [''3. ADDITIONAL FACTS:'',
        '''',
        ''   a) [ADDITIONAL FACT 1]'',
        ''   b) [ADDITIONAL FACT 2]'',
        ''   c) [ADDITIONAL FACT 3]'',
        '''']
       @ (if legal_provisions \<noteq> [] then
             [''4. LEGAL SUBMISSIONS:'',
              '''']
             @ concat (map (\<lambda>(i, provision).
                   [''   '' @ str_nat i @ ''. '' @ prov_act provision @ '', Section '' @ prov_section provision @ '':'',
                    ''      The Plaintiff has misinterpreted this provision. The correct'',
                    ''      interpretation is that [INTERPRETATION].'',
                    ''''])
                 (enumerate 1 legal_provisions))
         else [])
       @ (if case_precedents \<noteq> [] then
             [''5. CASE LAW:'',
              '''']
             @ concat (map (\<lambda>(i, precedent).
                   [''   '' @ str_nat i @ ''. '' @ prec_parties precedent @ '' ('' @ prec_citation precedent @ ''):'',
                    ''      This case is distinguishable on facts as [DISTINCTION].'',
                    ''''])
                 (enumerate 1 case_precedents))
         else [])
       @ (if include_arguments \<and> argument_list \<noteq> [] then
             [''6. COUNTER ARGUMENTS:'',
              '''']
             @ concat (map (\<lambda>(i, argument).
                   [''   '' @ str_nat i @ ''. In response to the argument that '' @ argument @ '', it is submitted that'',
                    ''      [COUNTER ARGUMENT].''])
                 (enumerate 1 argument_list))
             @ ['''']
         else [])
       @ [''7. PRAYER:'',
        '''',
        ''   In view of the above submissions, it is most respectfully prayed that this Hon'ble'',
        ''   Court may be pleased to dismiss the suit with costs.'',
        '''',
        ''VERIFICATION:'',
        '''',
        ''I, [NAME], the Defendant above named, do hereby verify that the contents of'',
        ''paragraphs 1 to 7 are true and correct to the best of my knowledge and belief'',
        ''and nothing material has been concealed therefrom.'',
        '''',
        ''Verified at [PLACE] on this '' @ date_day denv @ '' day of '' @ date_month_year denv @ ''.'',
        '''',
        ''DEFENDANT'',
        '''',
        ''FILED BY:'',
        '''',
        '''',
        ''ADVOCATE FOR THE DEFENDANT'',
        '''',
        ''PLACE: _____'',
        ''DATE: '' @ date_dmy denv])"

definition generate_legal_notice ::
  "drafter_env \<Rightarrow> api_parties
     \<Rightarrow> string list \<Rightarrow> provision list \<Rightarrow> bool \<Rightarrow> bool \<Rightarrow> string" where
  "generate_legal_notice denv party_names facts legal_provisions include_arguments include_prayer =
     join ''\<newline>''
      ([''LEGAL NOTICE'',
        '''',
        ''Date: '' @ date_dmy denv,
        '''',
        ''To,'',
        respondent party_names,
        ''[ADDRESS]'',
        '''',
        ''From,'',
        petitioner party_names,
        ''[ADDRESS]'',
        '''',
        ''Through,'',
        ''[ADVOCATE NAME]'',
        ''[ADVOCATE ADDRESS]'',
        '''',
        ''Subject: Legal Notice for [SUBJECT MATTER]'',
        '''',
        ''Sir/Madam,'',
        '''',
        ''Under instructions from and on behalf of my client, I hereby serve upon you the following legal notice:'',
        '''',
        ''1. FACTS:'',
        '''']
       @ concat (map (\<lambda>(i, fact).
             [''   '' @ str_nat i @ ''. '' @ fact])
           (enumerate 1 facts))
       @ ['''']
       @ (if legal_provisions \<noteq> [] then
             [''2. LEGAL PROVISIONS:'',
              '''']
             @ concat (map (\<lambda>(i, provision).
                   [''   '' @ str_nat i @ ''. As per '' @ prov_act provision @ '', Section '' @ prov_section provision @ '':'',
                    ''      '' @ prov_content provision,
                    ''''])
                 (enumerate 1 legal_provisions))
         else [])
       @ [''3. DEMAND:'',
        '''',
        ''   In view of the above facts and legal provisions, my client hereby calls upon you to:'',
        '''',
        ''   a) [SPECIFIC DEMAND 1]'',
        ''   b) [SPECIFIC DEMAND 2]'',
        ''   c) [SPECIFIC DEMAND 3]'',
        '''',
        ''4. TIME LIMIT:'',
        '''',
        ''   You are hereby called upon to comply with the above demands within [NUMBER] days'',
        ''   from the receipt of this notice, failing which my client will be constrained to'',
        ''   initiate appropriate legal proceedings against you, civil and/or criminal, at your'',
        ''   risk, cost, and consequences.'',
        '''',
        ''5. RESERVATION OF RIGHTS:'',
        '''',
        ''   This notice is being issued without prejudice to any other rights and remedies'',
        ''   available to my client under law, which are expressly reserved.'',
        '''',
        ''Yours faithfully,'',
        '''',
        '''',
        ''[ADVOCATE NAME]'',
        ''Advocate for the Noticee''])"

definition generate_affidavit ::
  "drafter_env \<Rightarrow> api_parties \<Rightarrow> string list \<Rightarrow> string \<Rightarrow> string" where
  "generate_affidavit denv party_names facts court =
     join ''\<newline>''
      ([''IN THE '' @ str_upper denv court,
        '''',
        ''CASE NO. _____ OF _____'',
        '''',
        ''IN THE MATTER OF:'',
        '''',
        petitioner party_names,
        ''... PETITIONER/PLAINTIFF'',
        '''',
        ''VERSUS'',
        '''',
        respondent party_names,
        ''... RESPONDENT/DEFENDANT'',
        '''',
        ''AFFIDAVIT'',
        '''',
        ''I, [NAME], aged about [AGE] years, [OCCUPATION], resident of [ADDRESS], do hereby'',
        ''solemnly affirm and state on oath as under:'',
        '''']
       @ concat (map (\<lambda>(i, fact).
             [str_nat i @ ''. '' @ fact])
           (enumerate 1 facts))
       @ ['''',
        ''VERIFICATION:'',
        '''',
        ''I, the deponent above named, do hereby verify that the contents of paragraphs 1 to'',
        str_nat (length facts) @ '' are true and correct to my knowledge and belief and nothing material'',
        ''has been concealed therefrom.'',
        '''',
        ''Verified at [PLACE] on this '' @ date_day denv @ '' day of '' @ date_month_year denv @ ''.'',
        '''',
        ''DEPONENT''])"

definition drafter_draft_case_file ::
  "drafter_env \<Rightarrow> api_parties \<Rightarrow> string list \<Rightarrow> provision list \<Rightarrow> precedent list
     \<Rightarrow> string list \<Rightarrow> options \<Rightarrow> case_file" where
  "drafter_draft_case_file denv party_names facts legal_provisions case_precedents
     argument_list opts =
     (let doc_type = lower (dict_get (opt_document_type opts) ''petition'');
          court = dict_get (opt_court opts) ''High Court'';
          include_arguments = dict_get (opt_include_arguments opts) True;
          include_prayer = dict_get (opt_include_prayer opts) True;
          versus = petitioner party_names @ '' vs. '' @ respondent party_names;
          (text, heading) =
            (if doc_type = ''petition'' then
               (generate_petition denv party_names facts legal_provisions case_precedents
                  argument_list court include_arguments include_prayer,
                ''PETITION - '' @ versus)
             else if doc_type = ''reply'' then
               (generate_reply denv party_names facts legal_provisions case_precedents
                  argument_list court include_arguments,
                ''REPLY - '' @ versus)
             else if doc_type = ''rejoinder'' then
               (generate_rejoinder denv party_names facts legal_provisions case_precedents
                  argument_list court include_arguments,
                ''REJOINDER - '' @ versus)
             else if doc_type = ''written_statement'' then
               (generate_written_statement denv party_names facts legal_provisions
                  case_precedents argument_list court include_arguments,
                ''WRITTEN STATEMENT - '' @ versus)
             else if doc_type = ''legal_notice'' then
               (generate_legal_notice denv party_names facts legal_provisions
                  include_arguments include_prayer,
                ''LEGAL NOTICE - '' @ petitioner party_names @ '' to '' @ respondent party_names)
             else if doc_type = ''affidavit'' then
               (generate_affidavit denv party_names facts court,
                ''AFFIDAVIT - '' @ petitioner party_names)
             else
               \<comment> \<open>Default to petition if document type is not recognized\<close>
               (generate_petition denv party_names facts legal_provisions case_precedents
                  argument_list court include_arguments include_prayer,
                ''PETITION - '' @ versus))
      in \<lparr>cf_title = heading, cf_content = text, cf_document_type = doc_type,
           cf_court = court, cf_date = date_long denv, cf_parties = party_names\<rparr>)"

section \<open>Properties\<close>

lemma length_generic_arguments: "length generic_arguments = 3"
  by (simp add: generic_arguments_def)

lemma length_generic_challenges: "length generic_challenges = 5"
  by (simp add: generic_challenges_def)

lemma length_generic_recommendations: "length generic_recommendations = 5"
  by (simp add: generic_recommendations_def)

lemma generate_arguments_bounds:
  "3 \<le> length (generate_arguments ba ls cs) \<and> length (generate_arguments ba ls cs) \<le> 5"
  by (simp add: generate_arguments_def Let_def length_generic_arguments)

lemma generate_challenges_bounds:
  "3 \<le> length (generate_challenges ba ls cs) \<and> length (generate_challenges ba ls cs) \<le> 4"
  by (simp add: generate_challenges_def Let_def length_generic_challenges)

lemma generate_recommendations_bounds:
  "4 \<le> length (generate_recommendations ba ls cs)
    \<and> length (generate_recommendations ba ls cs) \<le> 5"
  by (cases cs) (simp_all add: generate_recommendations_def Let_def length_generic_recommendations)

text \<open>
  C4. Whatever the brief analysis, the law sections and the case histories are (both lists
  may be empty), the generated arguments number between 3 and 5, the challenges between 3
  and 4, and the recommendations between 4 and 5.
\<close>

theorem analysis_padding_floor:
  "3 \<le> length (generate_arguments ba ls cs) \<and> length (generate_arguments ba ls cs) \<le> 5
   \<and> 3 \<le> length (generate_challenges ba ls cs) \<and> length (generate_challenges ba ls cs) \<le> 4
   \<and> 4 \<le> length (generate_recommendations ba ls cs)
   \<and> length (generate_recommendations ba ls cs) \<le> 5"
  using generate_arguments_bounds [of ba ls cs] generate_challenges_bounds [of ba ls cs]
    generate_recommendations_bounds [of ba ls cs]
  by simp

lemma first_best_snoc_other:
  assumes "first_best key rel p v" "key x \<noteq> key v"
  shows "first_best key rel (p @ [x]) v"
proof -
  from assms(1) obtain i where i: "i < length p" "p ! i = v"
    and a: "\<forall>j<length p. key (p ! j) = key v \<longrightarrow> rel (p ! j) \<le> rel v \<and> (j < i \<longrightarrow> rel (p ! j) < rel v)"
    unfolding first_best_def by blast
  have "\<forall>j<length (p @ [x]). key ((p @ [x]) ! j) = key v \<longrightarrow>
          rel ((p @ [x]) ! j) \<le> rel v \<and> (j < i \<longrightarrow> rel ((p @ [x]) ! j) < rel v)"
    using a assms(2) by (auto simp: nth_append less_Suc_eq)
  moreover have "(p @ [x]) ! i = v" "i < length (p @ [x])" using i by (auto simp: nth_append)
  ultimately show ?thesis unfolding first_best_def by blast
qed

lemma first_best_snoc_le:
  assumes "first_best key rel p v" "rel x \<le> rel v"
  shows "first_best key rel (p @ [x]) v"
proof -
  from assms(1) obtain i where i: "i < length p" "p ! i = v"
    and a: "\<forall>j<length p. key (p ! j) = key v \<longrightarrow> rel (p ! j) \<le> rel v \<and> (j < i \<longrightarrow> rel (p ! j) < rel v)"
    unfolding first_best_def by blast
  have "\<forall>j<length (p @ [x]). key ((p @ [x]) ! j) = key v \<longrightarrow>
          rel ((p @ [x]) ! j) \<le> rel v \<and> (j < i \<longrightarrow> rel ((p @ [x]) ! j) < rel v)"
    using a assms(2) i(1) by (auto simp: nth_append less_Suc_eq)
  moreover have "(p @ [x]) ! i = v" "i < length (p @ [x])" using i by (auto simp: nth_append)
  ultimately show ?thesis unfolding first_best_def by blast
qed

lemma first_best_snoc_new:
  assumes "\<forall>j<length p. key (p ! j) = key x \<longrightarrow> rel (p ! j) < rel x"
  shows "first_best key rel (p @ [x]) x"
  unfolding first_best_def
  using assms by (intro exI[of _ "length p"]) (auto simp: nth_append less_Suc_eq)

lemma dedup_inv_step_update:
  assumes inv: "dedup_inv key rel d p"
    and new: "\<forall>kept. map_of d (key x) = Some kept \<longrightarrow> rel kept < rel x"
  shows "dedup_inv key rel (AList.update (key x) x d) (p @ [x])"
proof -
  have older: "\<forall>j<length p. key (p ! j) = key x \<longrightarrow> rel (p ! j) < rel x"
  proof (intro allI impI)
    fix j assume j: "j < length p" "key (p ! j) = key x"
    then have "map_of d (key x) \<noteq> None" using inv unfolding dedup_inv_def by (metis nth_mem)
    then obtain kept where k: "map_of d (key x) = Some kept" by auto
    then have "key kept = key x" "first_best key rel p kept" using inv unfolding dedup_inv_def by auto
    then have "rel (p ! j) \<le> rel kept" using j unfolding first_best_def by auto
    then show "rel (p ! j) < rel x" using new k by force
  qed
  show ?thesis unfolding dedup_inv_def
  proof (intro conjI allI impI ballI)
    show "distinct (map fst (AList.update (key x) x d))"
      using inv by (simp add: dedup_inv_def distinct_update)
  next
    fix k v assume "map_of (AList.update (key x) x d) k = Some v"
    then have kv: "(k = key x \<and> v = x) \<or> (k \<noteq> key x \<and> map_of d k = Some v)"
      by (auto simp: update_conv' split: if_splits)
    then show "key v = k" using inv unfolding dedup_inv_def by auto
    from kv show "first_best key rel (p @ [x]) v"
    proof
      assume "k = key x \<and> v = x"
      then show ?thesis using first_best_snoc_new[OF older] by simp
    next
      assume a: "k \<noteq> key x \<and> map_of d k = Some v"
      then have "key v = k" "first_best key rel p v" using inv unfolding dedup_inv_def by auto
      then show ?thesis using a first_best_snoc_other by metis
    qed
  next
    fix y assume "y \<in> set (p @ [x])"
    then show "map_of (AList.update (key x) x d) (key y) \<noteq> None"
      using inv unfolding dedup_inv_def by (auto simp: update_conv')
  qed
qed

lemma dedup_inv_step_keep:
  assumes inv: "dedup_inv key rel d p"
    and kept: "map_of d (key x) = Some kept" "rel x \<le> rel kept"
  shows "dedup_inv key rel d (p @ [x])"
  unfolding dedup_inv_def
proof (intro conjI allI impI ballI)
  show "distinct (map fst d)" using inv by (simp add: dedup_inv_def)
next
  fix k v assume kv: "map_of d k = Some v"
  then have a: "key v = k" "first_best key rel p v" using inv unfolding dedup_inv_def by auto
  show "key v = k" by fact
  show "first_best key rel (p @ [x]) v"
  proof (cases "k = key x")
    case True
    then have "v = kept" using kv kept(1) by simp
    then show ?thesis using a(2) kept(2) first_best_snoc_le by metis
  next
    case False
    then show ?thesis using a first_best_snoc_other by metis
  qed
next
  fix y assume "y \<in> set (p @ [x])"
  then show "map_of d (key y) \<noteq> None"
    using inv kept(1) unfolding dedup_inv_def by auto
qed

lemma deduplicate_inv:
  "dedup_inv key rel d p \<Longrightarrow> dedup_inv key rel (deduplicate key rel xs d) (p @ xs)"
proof (induction xs arbitrary: d p)
  case Nil
  then show ?case by simp
next
  case (Cons x xs)
  show ?case
  proof (cases "map_of d (key x)")
    case None
    then have "dedup_inv key rel (AList.update (key x) x d) (p @ [x])"
      using dedup_inv_step_update[OF Cons.prems, of x] by simp
    from Cons.IH[OF this] None show ?thesis by simp
  next
    case (Some kept)
    show ?thesis
    proof (cases "rel x > rel kept")
      case True
      then have "dedup_inv key rel (AList.update (key x) x d) (p @ [x])"
        using dedup_inv_step_update[OF Cons.prems, of x] Some by simp
      from Cons.IH[OF this] Some True show ?thesis by simp
    next
      case False
      then have "dedup_inv key rel d (p @ [x])"
        using dedup_inv_step_keep[OF Cons.prems Some] by simp
      from Cons.IH[OF this] Some False show ?thesis by simp
    qed
  qed
qed

lemma deduplicate_inv_empty: "dedup_inv key rel (deduplicate key rel xs []) xs"
proof -
  have "dedup_inv key rel [] []" by (simp add: dedup_inv_def)
  from deduplicate_inv[OF this, of xs] show ?thesis by simp
qed

lemma dedup_values_keys:
  assumes "dedup_inv key rel d p"
  shows "map key (map snd d) = map fst d"
proof -
  have "\<forall>(k, v)\<in>set d. key v = k"
    using assms unfolding dedup_inv_def by (auto simp: map_of_eq_Some_iff)
  then show ?thesis by (induction d) auto
qed

lemma distinct_map_sort_key: "distinct (map f (sort_key g xs)) = distinct (map f xs)"
  by (simp add: distinct_map)

lemma dedup_sorted_keys_distinct:
  "distinct (map key (sorted_by_relevance rel (map snd (deduplicate key rel p []))))"
proof -
  let ?d = "deduplicate key rel p []"
  have inv: "dedup_inv key rel ?d p" by (rule deduplicate_inv_empty)
  have "distinct (map fst ?d)" using inv by (simp add: dedup_inv_def)
  then have "distinct (map key (map snd ?d))"
    using dedup_values_keys[OF inv] by metis
  then show ?thesis
    by (simp only: sorted_by_relevance_def distinct_map_sort_key)
qed

lemma dedup_sorted_first_best:
  assumes "r \<in> set (sorted_by_relevance rel (map snd (deduplicate key rel p [])))"
  shows "first_best key rel p r"
proof -
  let ?d = "deduplicate key rel p []"
  have inv: "dedup_inv key rel ?d p" by (rule deduplicate_inv_empty)
  from assms have "r \<in> snd ` set ?d"
    by (simp add: sorted_by_relevance_def)
  then obtain k where "(k, r) \<in> set ?d" by force
  then have "map_of ?d k = Some r" using inv by (simp add: dedup_inv_def)
  then show ?thesis using inv unfolding dedup_inv_def by blast
qed

lemma dedup_sorted_covers:
  assumes "x \<in> set p"
  shows "\<exists>r\<in>set (sorted_by_relevance rel (map snd (deduplicate key rel p []))).
           key r = key x \<and> rel x \<le> rel r"
proof -
  let ?d = "deduplicate key rel p []"
  have inv: "dedup_inv key rel ?d p" by (rule deduplicate_inv_empty)
  then obtain r where r: "map_of ?d (key x) = Some r"
    using assms unfolding dedup_inv_def by blast
  then have kr: "key r = key x" "first_best key rel p r"
    using inv unfolding dedup_inv_def by auto
  from assms obtain j where "j < length p" "p ! j = x" by (auto simp: in_set_conv_nth)
  then have "rel x \<le> rel r" using kr unfolding first_best_def by auto
  moreover have "r \<in> set (sorted_by_relevance rel (map snd ?d))"
    using map_of_SomeD[OF r] by (force simp: sorted_by_relevance_def)
  ultimately show ?thesis using kr(1) by blast
qed

lemma first_best_member: "first_best key rel p r \<Longrightarrow> r \<in> set p"
  unfolding first_best_def by auto

lemma query_connectors_acc:
  "query_connectors cs q acc = acc @ concat (map (\<lambda>c. succeeded (c q)) cs)"
  by (induction cs arbitrary: acc) (auto simp: succeeded_def split: sum.splits)

lemma query_connectors_filter:
  "query_connectors cs q acc = query_connectors (filter (\<lambda>c. \<not> isl (c q)) cs) q acc"
  by (induction cs arbitrary: acc) (auto split: sum.splits)

lemma query_connectors_all_failed:
  "\<forall>c\<in>set cs. isl (c q) \<Longrightarrow> query_connectors cs q acc = acc"
  by (induction cs arbitrary: acc) (auto split: sum.splits)

lemma sorted_by_relevance_sorted: "sorted (map (\<lambda>x. - rel x) (sorted_by_relevance rel xs))"
  by (simp add: sorted_by_relevance_def)

lemma all_law_results_succeeded:
  "all_law_results cs q = concat (map (\<lambda>c. succeeded (connector_law_sections c q)) cs)"
  by (simp add: all_law_results_def query_connectors_acc comp_def)

lemma all_case_results_succeeded:
  "all_case_results cs q = concat (map (\<lambda>c. succeeded (connector_case_history c q)) cs)"
  by (simp add: all_case_results_def query_connectors_acc comp_def)

lemma all_law_results_filter:
  "all_law_results cs q = all_law_results (filter (\<lambda>c. \<not> isl (connector_law_sections c q)) cs) q"
  unfolding all_law_results_def
  by (subst query_connectors_filter) (simp add: filter_map comp_def)

lemma all_case_results_filter:
  "all_case_results cs q = all_case_results (filter (\<lambda>c. \<not> isl (connector_case_history c q)) cs) q"
  unfolding all_case_results_def
  by (subst query_connectors_filter) (simp add: filter_map comp_def)

text \<open>
  C2. The law sections returned by the aggregator have pairwise different
  (title, sectionNumber) keys and the case histories pairwise different citations. Every
  record a connector returned is represented in the output by a record of the same key,
  taken from the connectors' results, whose relevance is at least as high: on a collision
  the record of maximum relevance is the one kept.
\<close>

theorem aggregator_dedup_invariant:
  "distinct (map law_key (search_law_sections cs q))
   \<and> distinct (map citation (search_case_history cs q))
   \<and> set (search_law_sections cs q) \<subseteq> set (all_law_results cs q)
   \<and> set (search_case_history cs q) \<subseteq> set (all_case_results cs q)
   \<and> (\<forall>x\<in>set (all_law_results cs q). \<exists>r\<in>set (search_law_sections cs q).
          law_key r = law_key x \<and> relevance x \<le> relevance r)
   \<and> (\<forall>x\<in>set (all_case_results cs q). \<exists>r\<in>set (search_case_history cs q).
          citation r = citation x \<and> case_relevance x \<le> case_relevance r)"
proof (intro conjI)
  show "distinct (map law_key (search_law_sections cs q))"
    unfolding search_law_sections_def Let_def by (rule dedup_sorted_keys_distinct)
  show "distinct (map citation (search_case_history cs q))"
    unfolding search_case_history_def Let_def by (rule dedup_sorted_keys_distinct)
  show "set (search_law_sections cs q) \<subseteq> set (all_law_results cs q)"
    unfolding search_law_sections_def Let_def
    using dedup_sorted_first_best first_best_member by fast
  show "set (search_case_history cs q) \<subseteq> set (all_case_results cs q)"
    unfolding search_case_history_def Let_def
    using dedup_sorted_first_best first_best_member by fast
  show "\<forall>x\<in>set (all_law_results cs q). \<exists>r\<in>set (search_law_sections cs q).
          law_key r = law_key x \<and> relevance x \<le> relevance r"
    unfolding search_law_sections_def Let_def by (intro ballI dedup_sorted_covers)
  show "\<forall>x\<in>set (all_case_results cs q). \<exists>r\<in>set (search_case_history cs q).
          citation r = citation x \<and> case_relevance x \<le> case_relevance r"
    unfolding search_case_history_def Let_def by (intro ballI dedup_sorted_covers)
qed

theorem aggregator_dedup_invariant_witness:
  "search_law_sections
     [\<lparr>connector_law_sections = (\<lambda>qp. Inr
         [\<lparr>title = ''Indian Penal Code'', sectionNumber = ''420'', content = ''a'', relevance = 6\<rparr>,
          \<lparr>title = ''Indian Contract Act'', sectionNumber = ''73'', content = ''b'', relevance = 7\<rparr>]),
       connector_case_history = (\<lambda>qp. Inr [])\<rparr>,
      \<lparr>connector_law_sections = (\<lambda>qp. Inr
         [\<lparr>title = ''Indian Penal Code'', sectionNumber = ''420'', content = ''c'', relevance = 9\<rparr>]),
       connector_case_history = (\<lambda>qp. Inr [])\<rparr>]
     \<lparr>query_keywords = [], query_acts = [], query_sections = [], query_domains = []\<rparr>
   = [\<lparr>title = ''Indian Penal Code'', sectionNumber = ''420'', content = ''c'', relevance = 9\<rparr>,
      \<lparr>title = ''Indian Contract Act'', sectionNumber = ''73'', content = ''b'', relevance = 7\<rparr>]
   \<and> distinct (map law_key
       [\<lparr>title = ''Indian Penal Code'', sectionNumber = ''420'', content = ''c'', relevance = 9\<rparr>,
        \<lparr>title = ''Indian Contract Act'', sectionNumber = ''73'', content = ''b'', relevance = 7\<rparr>])"
  using aggregator_dedup_invariant
    [of "[\<lparr>connector_law_sections = (\<lambda>qp. Inr
         [\<lparr>title = ''Indian Penal Code'', sectionNumber = ''420'', content = ''a'', relevance = 6\<rparr>,
          \<lparr>title = ''Indian Contract Act'', sectionNumber = ''73'', content = ''b'', relevance = 7\<rparr>]),
       connector_case_history = (\<lambda>qp. Inr [])\<rparr>,
      \<lparr>connector_law_sections = (\<lambda>qp. Inr
         [\<lparr>title = ''Indian Penal Code'', sectionNumber = ''420'', content = ''c'', relevance = 9\<rparr>]),
       connector_case_history = (\<lambda>qp. Inr [])\<rparr>]"
        "\<lparr>query_keywords = [], query_acts = [], query_sections = [], query_domains = []\<rparr>"]
  by (simp add: search_law_sections_def all_law_results_def law_key_def
      sorted_by_relevance_def)

text \<open>
  C3. A connector that raises contributes nothing and stops nothing: the aggregator's
  result is the deduplicated list, sorted by descending relevance, of the results of the
  connectors that returned, it is the same as if only those connectors were configured,
  and it is the empty list when every connector raises. The result is always a list;
  no exception leaves either search.
\<close>

theorem aggregator_partial_failure:
  "search_law_sections cs q =
     sorted_by_relevance relevance (map snd (deduplicate law_key relevance
       (concat (map (\<lambda>c. succeeded (connector_law_sections c q)) cs)) []))
   \<and> search_case_history cs q =
     sorted_by_relevance case_relevance (map snd (deduplicate citation case_relevance
       (concat (map (\<lambda>c. succeeded (connector_case_history c q)) cs)) []))
   \<and> search_law_sections cs q =
       search_law_sections (filter (\<lambda>c. \<not> isl (connector_law_sections c q)) cs) q
   \<and> search_case_history cs q =
       search_case_history (filter (\<lambda>c. \<not> isl (connector_case_history c q)) cs) q
   \<and> sorted (map (\<lambda>r. - relevance r) (search_law_sections cs q))
   \<and> sorted (map (\<lambda>r. - case_relevance r) (search_case_history cs q))
   \<and> distinct (map law_key (search_law_sections cs q))
   \<and> distinct (map citation (search_case_history cs q))
   \<and> ((\<forall>c\<in>set cs. isl (connector_law_sections c q)) \<longrightarrow> search_law_sections cs q = [])
   \<and> ((\<forall>c\<in>set cs. isl (connector_case_history c q)) \<longrightarrow> search_case_history cs q = [])"
proof (intro conjI impI)
  show "search_law_sections cs q =
     sorted_by_relevance relevance (map snd (deduplicate law_key relevance
       (concat (map (\<lambda>c. succeeded (connector_law_sections c q)) cs)) []))"
    by (simp add: search_law_sections_def all_law_results_succeeded)
  show "search_case_history cs q =
     sorted_by_relevance case_relevance (map snd (deduplicate citation case_relevance
       (concat (map (\<lambda>c. succeeded (connector_case_history c q)) cs)) []))"
    by (simp add: search_case_history_def all_case_results_succeeded)
  show "search_law_sections cs q =
       search_law_sections (filter (\<lambda>c. \<not> isl (connector_law_sections c q)) cs) q"
    unfolding search_law_sections_def using all_law_results_filter[of cs q] by simp
  show "search_case_history cs q =
       search_case_history (filter (\<lambda>c. \<not> isl (connector_case_history c q)) cs) q"
    unfolding search_case_history_def using all_case_results_filter[of cs q] by simp
  show "sorted (map (\<lambda>r. - relevance r) (search_law_sections cs q))"
    unfolding search_law_sections_def Let_def by (rule sorted_by_relevance_sorted)
  show "sorted (map (\<lambda>r. - case_relevance r) (search_case_history cs q))"
    unfolding search_case_history_def Let_def by (rule sorted_by_relevance_sorted)
  show "distinct (map law_key (search_law_sections cs q))"
    unfolding search_law_sections_def Let_def by (rule dedup_sorted_keys_distinct)
  show "distinct (map citation (search_case_history cs q))"
    unfolding search_case_history_def Let_def by (rule dedup_sorted_keys_distinct)
next
  assume "\<forall>c\<in>set cs. isl (connector_law_sections c q)"
  then have "all_law_results cs q = []"
    unfolding all_law_results_def by (intro query_connectors_all_failed) simp
  then show "search_law_sections cs q = []"
    by (simp add: search_law_sections_def sorted_by_relevance_def)
next
  assume "\<forall>c\<in>set cs. isl (connector_case_history c q)"
  then have "all_case_results cs q = []"
    unfolding all_case_results_def by (intro query_connectors_all_failed) simp
  then show "search_case_history cs q = []"
    by (simp add: search_case_history_def sorted_by_relevance_def)
qed

theorem aggregator_partial_failure_witness:
  "search_law_sections
     [\<lparr>connector_law_sections = (\<lambda>qp. Inl (PyException ''API request failed: 503'')),
       connector_case_history = (\<lambda>qp. Inl (PyException ''API request failed: 503''))\<rparr>,
      \<lparr>connector_law_sections = (\<lambda>qp. Inr
         [\<lparr>title = ''Indian Contract Act'', sectionNumber = ''73'', content = ''a'', relevance = 7\<rparr>,
          \<lparr>title = ''Indian Penal Code'', sectionNumber = ''420'', content = ''b'', relevance = 9\<rparr>,
          \<lparr>title = ''Specific Relief Act'', sectionNumber = ''10'', content = ''c'', relevance = 7\<rparr>]),
       connector_case_history = (\<lambda>qp. Inl (PyException ''timeout''))\<rparr>]
     \<lparr>query_keywords = [], query_acts = [], query_sections = [], query_domains = []\<rparr>
   = [\<lparr>title = ''Indian Penal Code'', sectionNumber = ''420'', content = ''b'', relevance = 9\<rparr>,
      \<lparr>title = ''Indian Contract Act'', sectionNumber = ''73'', content = ''a'', relevance = 7\<rparr>,
      \<lparr>title = ''Specific Relief Act'', sectionNumber = ''10'', content = ''c'', relevance = 7\<rparr>]
   \<and> search_case_history
     [\<lparr>connector_law_sections = (\<lambda>qp. Inl (PyException ''API request failed: 503'')),
       connector_case_history = (\<lambda>qp. Inl (PyException ''API request failed: 503''))\<rparr>,
      \<lparr>connector_law_sections = (\<lambda>qp. Inr
         [\<lparr>title = ''Indian Contract Act'', sectionNumber = ''73'', content = ''a'', relevance = 7\<rparr>,
          \<lparr>title = ''Indian Penal Code'', sectionNumber = ''420'', content = ''b'', relevance = 9\<rparr>,
          \<lparr>title = ''Specific Relief Act'', sectionNumber = ''10'', content = ''c'', relevance = 7\<rparr>]),
       connector_case_history = (\<lambda>qp. Inl (PyException ''timeout''))\<rparr>]
     \<lparr>query_keywords = [], query_acts = [], query_sections = [], query_domains = []\<rparr>
   = []"
  using aggregator_partial_failure
    [of "[\<lparr>connector_law_sections = (\<lambda>qp. Inl (PyException ''API request failed: 503'')),
       connector_case_history = (\<lambda>qp. Inl (PyException ''API request failed: 503''))\<rparr>,
      \<lparr>connector_law_sections = (\<lambda>qp. Inr
         [\<lparr>title = ''Indian Contract Act'', sectionNumber = ''73'', content = ''a'', relevance = 7\<rparr>,
          \<lparr>title = ''Indian Penal Code'', sectionNumber = ''420'', content = ''b'', relevance = 9\<rparr>,
          \<lparr>title = ''Specific Relief Act'', sectionNumber = ''10'', content = ''c'', relevance = 7\<rparr>]),
       connector_case_history = (\<lambda>qp. Inl (PyException ''timeout''))\<rparr>]"
        "\<lparr>query_keywords = [], query_acts = [], query_sections = [], query_domains = []\<rparr>"]
  by (simp add: succeeded_def law_key_def sorted_by_relevance_def)

text \<open>
  C9. Each record the aggregator keeps is the first one, in the order in which the
  connectors were queried and returned their results, among the records of its key that
  reach the highest relevance of that key: every earlier record of the key has strictly
  lower relevance, and a later record of equal relevance does not replace it.
\<close>

theorem aggregator_ties_keep_first:
  "(r \<in> set (search_law_sections cs q) \<longrightarrow>
      (\<exists>i<length (all_law_results cs q). all_law_results cs q ! i = r \<and>
         (\<forall>j<length (all_law_results cs q).
            law_key (all_law_results cs q ! j) = law_key r \<longrightarrow>
              relevance (all_law_results cs q ! j) \<le> relevance r
              \<and> (j < i \<longrightarrow> relevance (all_law_results cs q ! j) < relevance r))))
   \<and> (c \<in> set (search_case_history cs q) \<longrightarrow>
      (\<exists>i<length (all_case_results cs q). all_case_results cs q ! i = c \<and>
         (\<forall>j<length (all_case_results cs q).
            citation (all_case_results cs q ! j) = citation c \<longrightarrow>
              case_relevance (all_case_results cs q ! j) \<le> case_relevance c
              \<and> (j < i \<longrightarrow> case_relevance (all_case_results cs q ! j) < case_relevance c))))"
proof (intro conjI impI)
  assume "r \<in> set (search_law_sections cs q)"
  then have "first_best law_key relevance (all_law_results cs q) r"
    unfolding search_law_sections_def Let_def by (rule dedup_sorted_first_best)
  then show "\<exists>i<length (all_law_results cs q). all_law_results cs q ! i = r \<and>
         (\<forall>j<length (all_law_results cs q).
            law_key (all_law_results cs q ! j) = law_key r \<longrightarrow>
              relevance (all_law_results cs q ! j) \<le> relevance r
              \<and> (j < i \<longrightarrow> relevance (all_law_results cs q ! j) < relevance r))"
    unfolding first_best_def .
next
  assume "c \<in> set (search_case_history cs q)"
  then have "first_best citation case_relevance (all_case_results cs q) c"
    unfolding search_case_history_def Let_def by (rule dedup_sorted_first_best)
  then show "\<exists>i<length (all_case_results cs q). all_case_results cs q ! i = c \<and>
         (\<forall>j<length (all_case_results cs q).
            citation (all_case_results cs q ! j) = citation c \<longrightarrow>
              case_relevance (all_case_results cs q ! j) \<le> case_relevance c
              \<and> (j < i \<longrightarrow> case_relevance (all_case_results cs q ! j) < case_relevance c))"
    unfolding first_best_def .
qed

theorem aggregator_ties_keep_first_witness:
  "search_law_sections
     [\<lparr>connector_law_sections = (\<lambda>qp. Inr
         [\<lparr>title = ''Indian Penal Code'', sectionNumber = ''420'', content = ''first'', relevance = 9\<rparr>]),
       connector_case_history = (\<lambda>qp. Inr
         [\<lparr>citation = ''AIR 2017 SC 567'', parties = ''A vs. B'', holdings = ''first'', case_relevance = 6\<rparr>])\<rparr>,
      \<lparr>connector_law_sections = (\<lambda>qp. Inr
         [\<lparr>title = ''Indian Penal Code'', sectionNumber = ''420'', content = ''second'', relevance = 9\<rparr>]),
       connector_case_history = (\<lambda>qp. Inr
         [\<lparr>citation = ''AIR 2017 SC 567'', parties = ''A vs. B'', holdings = ''second'', case_relevance = 6\<rparr>])\<rparr>]
     \<lparr>query_keywords = [], query_acts = [], query_sections = [], query_domains = []\<rparr>
   = [\<lparr>title = ''Indian Penal Code'', sectionNumber = ''420'', content = ''first'', relevance = 9\<rparr>]
   \<and> search_case_history
     [\<lparr>connector_law_sections = (\<lambda>qp. Inr
         [\<lparr>title = ''Indian Penal Code'', sectionNumber = ''420'', content = ''first'', relevance = 9\<rparr>]),
       connector_case_history = (\<lambda>qp. Inr
         [\<lparr>citation = ''AIR 2017 SC 567'', parties = ''A vs. B'', holdings = ''first'', case_relevance = 6\<rparr>])\<rparr>,
      \<lparr>connector_law_sections = (\<lambda>qp. Inr
         [\<lparr>title = ''Indian Penal Code'', sectionNumber = ''420'', content = ''second'', relevance = 9\<rparr>]),
       connector_case_history = (\<lambda>qp. Inr
         [\<lparr>citation = ''AIR 2017 SC 567'', parties = ''A vs. B'', holdings = ''second'', case_relevance = 6\<rparr>])\<rparr>]
     \<lparr>query_keywords = [], query_acts = [], query_sections = [], query_domains = []\<rparr>
   = [\<lparr>citation = ''AIR 2017 SC 567'', parties = ''A vs. B'', holdings = ''first'', case_relevance = 6\<rparr>]"
  using aggregator_ties_keep_first
    [of "\<lparr>title = ''Indian Penal Code'', sectionNumber = ''420'', content = ''first'', relevance = 9\<rparr>"
        "[\<lparr>connector_law_sections = (\<lambda>qp. Inr
         [\<lparr>title = ''Indian Penal Code'', sectionNumber = ''420'', content = ''first'', relevance = 9\<rparr>]),
       connector_case_history = (\<lambda>qp. Inr
         [\<lparr>citation = ''AIR 2017 SC 567'', parties = ''A vs. B'', holdings = ''first'', case_relevance = 6\<rparr>])\<rparr>,
      \<lparr>connector_law_sections = (\<lambda>qp. Inr
         [\<lparr>title = ''Indian Penal Code'', sectionNumber = ''420'', content = ''second'', relevance = 9\<rparr>]),
       connector_case_history = (\<lambda>qp. Inr
         [\<lparr>citation = ''AIR 2017 SC 567'', parties = ''A vs. B'', holdings = ''second'', case_relevance = 6\<rparr>])\<rparr>]"
        "\<lparr>query_keywords = [], query_acts = [], query_sections = [], query_domains = []\<rparr>"
        "\<lparr>citation = ''AIR 2017 SC 567'', parties = ''A vs. B'', holdings = ''first'', case_relevance = 6\<rparr>"]
  by (simp add: search_law_sections_def search_case_history_def all_law_results_def
      all_case_results_def law_key_def sorted_by_relevance_def)

lemma re_sub_spaces_Nil_iff: "re_sub_spaces s = [] \<longleftrightarrow> s = []"
  by (cases s) auto

lemma hd_re_sub_spaces: "s \<noteq> [] \<Longrightarrow> \<not> is_space (hd s) \<Longrightarrow> hd (re_sub_spaces s) = hd s"
  by (cases s) auto

lemma hd_dropWhile_space: "dropWhile is_space cs \<noteq> [] \<Longrightarrow> \<not> is_space (hd (dropWhile is_space cs))"
  using hd_dropWhile by blast

lemma normal_spaces_re_sub_spaces: "normal_spaces (re_sub_spaces s)"
  by (induction s rule: re_sub_spaces.induct)
     (auto simp: re_sub_spaces_Nil_iff hd_re_sub_spaces hd_dropWhile_space)

lemma dropWhile_id: "s = [] \<or> \<not> P (hd s) \<Longrightarrow> dropWhile P s = s"
  by (cases s) auto

lemma re_sub_spaces_normal: "normal_spaces s \<Longrightarrow> re_sub_spaces s = s"
  by (induction s) (auto simp: dropWhile_id)

lemma normal_spaces_append: "normal_spaces (xs @ ys) \<Longrightarrow> normal_spaces xs \<and> normal_spaces ys"
  by (induction xs) (auto simp: hd_append split: if_splits)

lemma normal_spaces_drop: "normal_spaces s \<Longrightarrow> normal_spaces (drop n s)"
  using normal_spaces_append[of "take n s" "drop n s"] by simp

lemma normal_spaces_take: "normal_spaces s \<Longrightarrow> normal_spaces (take n s)"
  using normal_spaces_append[of "take n s" "drop n s"] by simp

lemma strip_take_drop: "\<exists>m n. strip s = take n (drop m s)"
proof -
  let ?u = "dropWhile is_space s"
  have u: "?u = drop (length (takeWhile is_space s)) s" by (rule dropWhile_eq_drop)
  have "rev (dropWhile is_space (rev ?u)) = rev (drop (length (takeWhile is_space (rev ?u))) (rev ?u))"
    by (simp add: dropWhile_eq_drop)
  also have "\<dots> = take (length ?u - length (takeWhile is_space (rev ?u))) ?u"
    by (simp add: rev_drop)
  finally show ?thesis unfolding strip_def using u by metis
qed

lemma normal_spaces_strip: "normal_spaces s \<Longrightarrow> normal_spaces (strip s)"
  using strip_take_drop[of s] normal_spaces_take normal_spaces_drop by metis

lemma stripped_strip: "stripped (strip s)"
proof -
  let ?u = "dropWhile is_space s"
  let ?v = "dropWhile is_space (rev ?u)"
  show ?thesis
  proof (cases "?v = []")
    case True then show ?thesis by (simp add: strip_def stripped_def)
  next
    case False
    then have hv: "\<not> is_space (hd ?v)" by (rule hd_dropWhile_space)
    have une: "?u \<noteq> []"
    proof
      assume "?u = []"
      then have "?v = []" by (simp only: rev.simps(1) dropWhile.simps(1))
      with False show False by blast
    qed
    then have hu: "\<not> is_space (hd ?u)" by (rule hd_dropWhile_space)
    have "\<exists>k. ?v = drop k (rev ?u)" by (metis dropWhile_eq_drop)
    then obtain k where k: "?v = drop k (rev ?u)" by blast
    with False have "last ?v = last (rev ?u)" by (simp add: last_drop)
    then have "last ?v = hd ?u" using une by (simp add: last_rev)
    then have "hd (rev ?v) = hd ?u" using False by (simp add: hd_rev)
    moreover have "last (rev ?v) = hd ?v" using False by (simp add: last_rev)
    ultimately show ?thesis using hu hv False by (simp add: strip_def stripped_def)
  qed
qed

lemma strip_stripped: "stripped t \<Longrightarrow> strip t = t"
  unfolding strip_def stripped_def
  by (cases "t = []") (simp_all add: dropWhile_id hd_rev)

lemma preprocess_text_with_canon:
  "preprocess_text_with qs as s = map (canon qs as) (strip (re_sub_spaces s))"
  by (simp add: preprocess_text_with_def re_sub_class_def canon_def Let_def)

lemma canon_space: "is_space (canon qs as c) \<Longrightarrow> canon qs as c = c"
  by (auto simp: canon_def is_space_def Let_def split: if_splits)

lemma canon_idem: "39 \<notin> set qs \<or> 34 \<in> set as \<Longrightarrow> canon qs as (canon qs as c) = canon qs as c"
  by (auto simp: canon_def Let_def)

lemma normal_spaces_map_canon: "normal_spaces t \<Longrightarrow> normal_spaces (map (canon qs as) t)"
proof (induction t)
  case Nil then show ?case by simp
next
  case (Cons c cs)
  then show ?case
    by (cases cs) (auto dest: canon_space, (metis canon_space)+)
qed

lemma stripped_map_canon: "stripped t \<Longrightarrow> stripped (map (canon qs as) t)"
  unfolding stripped_def
  by (auto simp: hd_map last_map) (metis canon_space)+

lemma preprocess_text_with_idem:
  assumes "39 \<notin> set qs \<or> 34 \<in> set as"
  shows "preprocess_text_with qs as (preprocess_text_with qs as s) = preprocess_text_with qs as s"
proof -
  let ?t = "map (canon qs as) (strip (re_sub_spaces s))"
  have n: "normal_spaces ?t"
    by (intro normal_spaces_map_canon normal_spaces_strip normal_spaces_re_sub_spaces)
  have st: "stripped ?t" by (intro stripped_map_canon stripped_strip)
  have "map (canon qs as) (strip (re_sub_spaces ?t)) = map (canon qs as) ?t"
    by (simp only: re_sub_spaces_normal[OF n] strip_stripped[OF st])
  also have "\<dots> = ?t" using canon_idem[OF assms] by simp
  finally show ?thesis by (simp only: preprocess_text_with_canon)
qed

text \<open>
  C8. The normalizer is idempotent: normalizing a normalized text changes nothing.
\<close>

theorem preprocess_text_idempotent:
  "preprocess_text (preprocess_text s) = preprocess_text s"
  unfolding preprocess_text_def
  by (rule preprocess_text_with_idem) (simp add: quote_glyphs_def)

theorem preprocess_text_idempotent_witness:
  "preprocess_text [32, 9, 65, 34, 8220, 10, 10, 39, 8217, 66, 160]
     = [65, 34, 8220, 32, 39, 8217, 66]
   \<and> preprocess_text [65, 34, 8220, 32, 39, 8217, 66] = [65, 34, 8220, 32, 39, 8217, 66]"
proof -
  have a: "preprocess_text [32, 9, 65, 34, 8220, 10, 10, 39, 8217, 66, 160]
             = [65, 34, 8220, 32, 39, 8217, 66]"
    by (simp add: preprocess_text_def preprocess_text_with_def strip_def re_sub_class_def
        quote_glyphs_def apostrophe_glyphs_def is_space_def)
  show ?thesis
    using preprocess_text_idempotent [of "[32, 9, 65, 34, 8220, 10, 10, 39, 8217, 66, 160]"]
    unfolding a by (simp add: a)
qed

lemma finditer_Nil: "finditer m [] = (case m [] of Some (x, rest) \<Rightarrow> [x] | None \<Rightarrow> [])"
  by (simp split: option.splits)

lemma finditer_Cons_None: "m (c # cs) = None \<Longrightarrow> finditer m (c # cs) = finditer m cs"
  by simp

lemma finditer_Cons_Some:
  "m (c # cs) = Some (x, rest) \<Longrightarrow> length rest \<le> length cs
     \<Longrightarrow> finditer m (c # cs) = x # finditer m rest"
  by simp

declare finditer.simps [simp del]

lemmas finditer_eval = finditer_Nil finditer_Cons_None finditer_Cons_Some

lemmas matcher_defs = match_air_def match_scc_def match_scr_def re_digits4_def re_digits_def
  re_spaces_def re_literal_def digit_char_def space_char_def is_space_def

text \<open>
  C6. On the brief \<^verbatim>\<open>AIR 2017 SC 567\<close> the citation extractor returns no citation
  at all: its AIR pattern wants the year before the word AIR and the page right after it,
  as in \<^verbatim>\<open>2017 AIR 567\<close>, which it does extract as an AIR citation of year 2017,
  page 567.
\<close>

theorem extract_citations_air_sc:
  "extract_citations ''AIR 2017 SC 567'' = []
   \<and> extract_citations ''2017 AIR 567'' = [AIR ''2017'' ''567'']"
  by (simp add: extract_citations_def finditer_eval matcher_defs)

lemma set_uniq: "set (uniq xs) = set xs"
  by (induction xs rule: uniq.induct) auto

lemma distinct_uniq: "distinct (uniq xs)"
  by (induction xs rule: uniq.induct) (auto simp: set_uniq)

lemma set_list_of_set: "set (list_of_set slot xs) = set xs"
  by (simp add: list_of_set_def set_uniq)

lemma distinct_list_of_set: "distinct (list_of_set slot xs)"
  by (simp add: list_of_set_def distinct_uniq)

lemma length_list_of_set: "length (list_of_set slot xs) = card (set xs)"
  using distinct_card[OF distinct_list_of_set, of slot xs] by (simp add: set_list_of_set)

text \<open>
  C7, as the code has it. Whatever the iteration order of the set is, the query generator
  returns at most 10 pairwise distinct strings, all of them candidates, and every
  candidate when there are at most 10 different ones. The candidates are generated with
  the noun phrases (at most 5) first, then the act and section queries, then the citation
  queries, then the entity queries.
\<close>

theorem generate_search_queries_bounded:
  "length (generate_search_queries slot nc es as cs lt) \<le> 10
   \<and> distinct (generate_search_queries slot nc es as cs lt)
   \<and> set (generate_search_queries slot nc es as cs lt) \<subseteq> set (candidate_queries nc es as cs lt)
   \<and> (card (set (candidate_queries nc es as cs lt)) \<le> 10 \<longrightarrow>
        set (generate_search_queries slot nc es as cs lt) = set (candidate_queries nc es as cs lt))
   \<and> candidate_queries nc es as cs lt =
        take 5 (filter (\<lambda>chunk. 2 \<le> length (py_split chunk) \<and> length (py_split chunk) \<le> 5) nc)
        @ map act_section_query as @ map citation_query cs @ entity_queries es lt"
proof (intro conjI impI)
  let ?q = "candidate_queries nc es as cs lt"
  show "length (generate_search_queries slot nc es as cs lt) \<le> 10"
    by (simp add: generate_search_queries_def)
  show "distinct (generate_search_queries slot nc es as cs lt)"
    by (simp add: generate_search_queries_def distinct_list_of_set)
  show "set (generate_search_queries slot nc es as cs lt) \<subseteq> set ?q"
    using set_take_subset[of 10 "list_of_set slot ?q"]
    by (simp add: generate_search_queries_def set_list_of_set)
  show "?q = take 5 (filter (\<lambda>chunk. 2 \<le> length (py_split chunk) \<and> length (py_split chunk) \<le> 5) nc)
        @ map act_section_query as @ map citation_query cs @ entity_queries es lt"
    by (simp add: candidate_queries_def)
  assume "card (set ?q) \<le> 10"
  then have "take 10 (list_of_set slot ?q) = list_of_set slot ?q"
    by (simp add: length_list_of_set)
  then show "set (generate_search_queries slot nc es as cs lt) = set ?q"
    by (simp add: generate_search_queries_def set_list_of_set)
qed

lemma example_candidates:
  "candidate_queries
     [''the first party'', ''a written agreement'', ''the agreed date'', ''the penalty clause'',
      ''a higher price'', ''contract'']
     []
     [\<lparr>act = ''Indian Penal Code'', section_number = ''420''\<rparr>,
      \<lparr>act = ''Indian Contract Act'', section_number = ''73''\<rparr>,
      \<lparr>act = ''Indian Evidence Act'', section_number = ''65''\<rparr>,
      \<lparr>act = ''Companies Act'', section_number = ''10''\<rparr>,
      \<lparr>act = ''Specific Relief Act'', section_number = ''10''\<rparr>]
     [AIR ''2017'' ''567''] []
   = [''the first party'', ''a written agreement'', ''the agreed date'', ''the penalty clause'',
      ''a higher price'', ''Indian Penal Code section 420'', ''Indian Contract Act section 73'',
      ''Indian Evidence Act section 65'', ''Companies Act section 10'',
      ''Specific Relief Act section 10'', ''2017 AIR 567'']"
  by (simp add: candidate_queries_def py_split_def space_char_def is_space_def
      act_section_query_def entity_queries_def)

theorem generate_search_queries_bounded_witness:
  "set (generate_search_queries (\<lambda>q. length q)
     [''breach of contract'', ''contract''] [(''PERSON'', [''Mehta''])]
     [\<lparr>act = ''Indian Contract Act'', section_number = ''73''\<rparr>] [AIR ''2017'' ''567'']
     [''damages''])
   = {''breach of contract'', ''Indian Contract Act section 73'', ''2017 AIR 567'',
      ''Mehta damages''}"
proof -
  have c: "candidate_queries
     [''breach of contract'', ''contract''] [(''PERSON'', [''Mehta''])]
     [\<lparr>act = ''Indian Contract Act'', section_number = ''73''\<rparr>] [AIR ''2017'' ''567'']
     [''damages'']
    = [''breach of contract'', ''Indian Contract Act section 73'', ''2017 AIR 567'',
       ''Mehta damages'']"
    by (simp add: candidate_queries_def py_split_def space_char_def is_space_def
        act_section_query_def entity_queries_def)
  show ?thesis
    using generate_search_queries_bounded
      [of "\<lambda>q. length q" "[''breach of contract'', ''contract'']" "[(''PERSON'', [''Mehta''])]"
          "[\<lparr>act = ''Indian Contract Act'', section_number = ''73''\<rparr>]" "[AIR ''2017'' ''567'']"
          "[''damages'']"]
    unfolding c by (simp add: card_insert_if)
qed

text \<open>
  C7, as the claim has it, fails. With five noun phrases, five act and section queries and
  one citation there are eleven candidates; when the set is iterated in insertion order
  the citation query is the one the cap drops, and all five noun phrases are kept.
\<close>

theorem generate_search_queries_drops_citation:
  "''2017 AIR 567'' \<in> set (candidate_queries
     [''the first party'', ''a written agreement'', ''the agreed date'', ''the penalty clause'',
      ''a higher price'', ''contract'']
     []
     [\<lparr>act = ''Indian Penal Code'', section_number = ''420''\<rparr>,
      \<lparr>act = ''Indian Contract Act'', section_number = ''73''\<rparr>,
      \<lparr>act = ''Indian Evidence Act'', section_number = ''65''\<rparr>,
      \<lparr>act = ''Companies Act'', section_number = ''10''\<rparr>,
      \<lparr>act = ''Specific Relief Act'', section_number = ''10''\<rparr>]
     [AIR ''2017'' ''567''] [])
   \<and> generate_search_queries (\<lambda>q. 0)
     [''the first party'', ''a written agreement'', ''the agreed date'', ''the penalty clause'',
      ''a higher price'', ''contract'']
     []
     [\<lparr>act = ''Indian Penal Code'', section_number = ''420''\<rparr>,
      \<lparr>act = ''Indian Contract Act'', section_number = ''73''\<rparr>,
      \<lparr>act = ''Indian Evidence Act'', section_number = ''65''\<rparr>,
      \<lparr>act = ''Companies Act'', section_number = ''10''\<rparr>,
      \<lparr>act = ''Specific Relief Act'', section_number = ''10''\<rparr>]
     [AIR ''2017'' ''567''] []
   = [''the first party'', ''a written agreement'', ''the agreed date'', ''the penalty clause'',
      ''a higher price'', ''Indian Penal Code section 420'', ''Indian Contract Act section 73'',
      ''Indian Evidence Act section 65'', ''Companies Act section 10'',
      ''Specific Relief Act section 10'']"
  by (simp add: generate_search_queries_def example_candidates list_of_set_def)

lemma map_of_fill:
  "map_of (fill key text sections) k =
     (if k = key \<and> map_of sections key \<noteq> None then Some text else map_of sections k)"
  by (simp add: fill_def update_conv')

lemma map_of_blank_sections:
  "map_of (map (\<lambda>section. (section, '''')) names) k = (if k \<in> set names then Some '''' else None)"
  by (induction names) auto

lemma written_statement_structure:
  "document_structures ''written_statement'' =
     Some [''title'', ''parties'', ''preliminary_objections'', ''facts'',
           ''defense_arguments'', ''legal_provisions'', ''prayer'', ''verification'']"
  by (simp add: document_structures_def)

lemma petition_structure:
  "document_structures ''petition'' =
     Some [''title'', ''jurisdiction'', ''parties'', ''facts'', ''grounds'',
           ''legal_provisions'', ''prayer'', ''verification'']"
  by (simp add: document_structures_def)

text \<open>
  The written statement's schema names a section \<^verbatim>\<open>defense_arguments\<close>, and no
  branch of the generator fills it: whenever sections are returned for a written
  statement, that one is the empty string.
\<close>

lemma written_statement_defense_arguments_empty:
  assumes "generate_document_sections td tok ''written_statement'' ba ls ch an ents ai
             = Inr sections"
  shows "map_of sections ''defense_arguments'' = Some ''''"
proof -
  have "\<And>base. map_of (document_specific_sections td tok ''written_statement'' ba ls ch an ents
            (dict_get ai Map.empty) base) ''defense_arguments''
          = map_of base ''defense_arguments''"
    by (simp add: document_specific_sections_def map_of_fill)
  then show ?thesis
    using assms
    by (auto simp: generate_document_sections_def Let_def map_of_fill update_conv'
        written_statement_structure dict_get_def split: sum.splits if_splits)
qed

text \<open>
  The entity extractor always supplies the key \<^verbatim>\<open>petitioners\<close>; when it found no
  petitioner the list is empty, and drafting a petition without an override for the
  verification raises \<^verbatim>\<open>IndexError\<close>.
\<close>

lemma petition_without_petitioner_raises:
  assumes "potential_parties ents = Some pp" and "pp ''petitioners'' = Some []"
    and "override (dict_get ai Map.empty) ''verification'' = None"
  shows "generate_document_sections td tok ''petition'' ba ls ch an ents ai = Inl IndexError"
  using assms
  by (simp add: generate_document_sections_def Let_def map_of_fill petition_structure
      generate_verification_section_def first_item_def dict_get_def)

text \<open>
  C5. The claim fails on the code in two ways. For a written statement the section
  \<^verbatim>\<open>defense_arguments\<close> of the schema is mapped to the empty string; and for a
  petition whose entities carry an empty list of petitioners the generator raises
  \<^verbatim>\<open>IndexError\<close> instead of returning sections.
\<close>

theorem document_sections_left_empty:
  "(case generate_document_sections ''03/11/2026'' (\<lambda>text. [text]) ''written_statement''
           \<lparr>domains = None, acts = None, summary = None\<rparr> [] []
           \<lparr>arguments = None, challenges = None, recommendations = None\<rparr>
           \<lparr>persons = None, organizations = None, dates = None, locations = None,
             monetary_values = None,
             potential_parties = Some [''petitioners'' \<mapsto> [''ABC Corporation''],
                                       ''respondents'' \<mapsto> [''XYZ Ltd'']]\<rparr>
           None of
      Inl e \<Rightarrow> None
    | Inr sections \<Rightarrow> map_of sections ''defense_arguments'') = Some ''''
   \<and> generate_document_sections ''03/11/2026'' (\<lambda>text. [text]) ''petition''
           \<lparr>domains = None, acts = None, summary = None\<rparr> [] []
           \<lparr>arguments = None, challenges = None, recommendations = None\<rparr>
           \<lparr>persons = Some [], organizations = Some [], dates = Some [], locations = Some [],
             monetary_values = Some [],
             potential_parties = Some [''petitioners'' \<mapsto> [], ''respondents'' \<mapsto> [],
                                       ''plaintiffs'' \<mapsto> [], ''defendants'' \<mapsto> []]\<rparr>
           None
     = Inl IndexError"
proof (intro conjI)
  let ?ents = "\<lparr>persons = None, organizations = None, dates = None, locations = None,
             monetary_values = None,
             potential_parties = Some [''petitioners'' \<mapsto> [''ABC Corporation''],
                                       ''respondents'' \<mapsto> [''XYZ Ltd'']]\<rparr>"
  let ?g = "generate_document_sections ''03/11/2026'' (\<lambda>text. [text]) ''written_statement''
           \<lparr>domains = None, acts = None, summary = None\<rparr> [] []
           \<lparr>arguments = None, challenges = None, recommendations = None\<rparr> ?ents None"
  have "generate_verification_section ''03/11/2026'' ''written_statement'' ?ents Map.empty
          \<noteq> Inl IndexError"
    by (simp add: generate_verification_section_def override_def dict_get_def first_item_def)
  then obtain sections where s: "?g = Inr sections"
    by (auto simp: generate_document_sections_def Let_def map_of_fill
        written_statement_structure dict_get_def generate_verification_section_def
        override_def first_item_def)
  from written_statement_defense_arguments_empty[OF s] s
  show "(case ?g of Inl e \<Rightarrow> None | Inr sections \<Rightarrow> map_of sections ''defense_arguments'')
          = Some ''''"
    by simp
next
  show "generate_document_sections ''03/11/2026'' (\<lambda>text. [text]) ''petition''
           \<lparr>domains = None, acts = None, summary = None\<rparr> [] []
           \<lparr>arguments = None, challenges = None, recommendations = None\<rparr>
           \<lparr>persons = Some [], organizations = Some [], dates = Some [], locations = Some [],
             monetary_values = Some [],
             potential_parties = Some [''petitioners'' \<mapsto> [], ''respondents'' \<mapsto> [],
                                       ''plaintiffs'' \<mapsto> [], ''defendants'' \<mapsto> []]\<rparr>
           None
     = Inl IndexError"
    by (rule petition_without_petitioner_raises
          [where pp = "[''petitioners'' \<mapsto> [], ''respondents'' \<mapsto> [],
                        ''plaintiffs'' \<mapsto> [], ''defendants'' \<mapsto> []]"])
       (simp_all add: override_def dict_get_def)
qed

lemma title_override:
  "generate_title dt ba ents (info(''title'' \<mapsto> v)) =
     (if v = '''' then generate_title dt ba ents (info(''title'' := None)) else v)"
  by (simp add: generate_title_def override_def)

lemma title_nonempty:
  "generate_title dt ba ents info \<noteq> ''''"
  by (auto simp: generate_title_def override_def Let_def split: option.splits sum.splits list.splits)

lemma parties_section_override:
  "generate_parties_section dt ents (info(''parties'' \<mapsto> v)) =
     (if v = '''' then generate_parties_section dt ents (info(''parties'' := None)) else v)"
  by (simp add: generate_parties_section_def override_def)

lemma parties_section_nonempty:
  "generate_parties_section dt ents info \<noteq> ''''"
  by (auto simp: generate_parties_section_def override_def Let_def split: option.splits sum.splits list.splits)

lemma jurisdiction_section_override:
  "generate_jurisdiction_section ba ents (info(''jurisdiction'' \<mapsto> v)) =
     (if v = '''' then generate_jurisdiction_section ba ents (info(''jurisdiction'' := None)) else v)"
  by (simp add: generate_jurisdiction_section_def override_def)

lemma jurisdiction_section_nonempty:
  "generate_jurisdiction_section ba ents info \<noteq> ''''"
  by (auto simp: generate_jurisdiction_section_def override_def Let_def split: option.splits sum.splits list.splits)

lemma facts_section_override:
  "generate_facts_section tok dt ba ents (info(''facts'' \<mapsto> v)) =
     (if v = '''' then generate_facts_section tok dt ba ents (info(''facts'' := None)) else v)"
  by (simp add: generate_facts_section_def override_def)

lemma facts_section_nonempty:
  "generate_facts_section tok dt ba ents info \<noteq> ''''"
  by (auto simp: generate_facts_section_def override_def Let_def split: option.splits sum.splits list.splits)

lemma legal_provisions_section_override:
  "generate_legal_provisions_section ls (info(''legal_provisions'' \<mapsto> v)) =
     (if v = '''' then generate_legal_provisions_section ls (info(''legal_provisions'' := None)) else v)"
  by (simp add: generate_legal_provisions_section_def override_def)

lemma legal_provisions_section_nonempty:
  "generate_legal_provisions_section ls info \<noteq> ''''"
  by (auto simp: generate_legal_provisions_section_def override_def Let_def split: option.splits sum.splits list.splits)

lemma grounds_section_override:
  "generate_grounds_section an ls ch (info(''grounds'' \<mapsto> v)) =
     (if v = '''' then generate_grounds_section an ls ch (info(''grounds'' := None)) else v)"
  by (simp add: generate_grounds_section_def override_def)

lemma grounds_section_nonempty:
  "generate_grounds_section an ls ch info \<noteq> ''''"
  by (auto simp: generate_grounds_section_def override_def Let_def split: option.splits sum.splits list.splits)

lemma prayer_section_override:
  "generate_prayer_section dt an ba (info(''prayer'' \<mapsto> v)) =
     (if v = '''' then generate_prayer_section dt an ba (info(''prayer'' := None)) else v)"
  by (simp add: generate_prayer_section_def override_def)

lemma prayer_section_nonempty:
  "generate_prayer_section dt an ba info \<noteq> ''''"
  by (auto simp: generate_prayer_section_def override_def Let_def split: option.splits sum.splits list.splits)

lemma verification_section_override:
  "generate_verification_section td dt ents (info(''verification'' \<mapsto> v)) =
     (if v = '''' then generate_verification_section td dt ents (info(''verification'' := None)) else Inr v)"
  by (simp add: generate_verification_section_def override_def)

lemma verification_section_nonempty:
  "generate_verification_section td dt ents info \<noteq> Inr ''''"
  by (auto simp: generate_verification_section_def override_def Let_def split: option.splits sum.splits list.splits)

lemma preliminary_objections_override:
  "generate_preliminary_objections an (info(''preliminary_objections'' \<mapsto> v)) =
     (if v = '''' then generate_preliminary_objections an (info(''preliminary_objections'' := None)) else v)"
  by (simp add: generate_preliminary_objections_def override_def)

lemma preliminary_objections_nonempty:
  "generate_preliminary_objections an info \<noteq> ''''"
  by (auto simp: generate_preliminary_objections_def override_def Let_def split: option.splits sum.splits list.splits)

lemma facts_rebuttal_override:
  "generate_facts_rebuttal ba (info(''facts_rebuttal'' \<mapsto> v)) =
     (if v = '''' then generate_facts_rebuttal ba (info(''facts_rebuttal'' := None)) else v)"
  by (simp add: generate_facts_rebuttal_def override_def)

lemma facts_rebuttal_nonempty:
  "generate_facts_rebuttal ba info \<noteq> ''''"
  by (auto simp: generate_facts_rebuttal_def override_def Let_def split: option.splits sum.splits list.splits)

lemma legal_arguments_override:
  "generate_legal_arguments an ls ch (info(''legal_arguments'' \<mapsto> v)) =
     (if v = '''' then generate_legal_arguments an ls ch (info(''legal_arguments'' := None)) else v)"
  by (simp add: generate_legal_arguments_def override_def)

lemma legal_arguments_nonempty:
  "generate_legal_arguments an ls ch info \<noteq> ''''"
  by (auto simp: generate_legal_arguments_def override_def Let_def split: option.splits sum.splits list.splits)

lemma rebuttal_to_reply_override:
  "generate_rebuttal_to_reply an (info(''rebuttal_to_reply'' \<mapsto> v)) =
     (if v = '''' then generate_rebuttal_to_reply an (info(''rebuttal_to_reply'' := None)) else v)"
  by (simp add: generate_rebuttal_to_reply_def override_def)

lemma rebuttal_to_reply_nonempty:
  "generate_rebuttal_to_reply an info \<noteq> ''''"
  by (auto simp: generate_rebuttal_to_reply_def override_def Let_def split: option.splits sum.splits list.splits)

lemma additional_facts_override:
  "generate_additional_facts ba (info(''additional_facts'' \<mapsto> v)) =
     (if v = '''' then generate_additional_facts ba (info(''additional_facts'' := None)) else v)"
  by (simp add: generate_additional_facts_def override_def)

lemma additional_facts_nonempty:
  "generate_additional_facts ba info \<noteq> ''''"
  by (auto simp: generate_additional_facts_def override_def Let_def split: option.splits sum.splits list.splits)

lemma deponent_details_override:
  "generate_deponent_details ents (info(''deponent_details'' \<mapsto> v)) =
     (if v = '''' then generate_deponent_details ents (info(''deponent_details'' := None)) else v)"
  by (simp add: generate_deponent_details_def override_def)

lemma deponent_details_nonempty:
  "generate_deponent_details ents info \<noteq> ''''"
  by (auto simp: generate_deponent_details_def override_def Let_def split: option.splits sum.splits list.splits)

lemma affidavit_statements_override:
  "generate_affidavit_statements tok ba (info(''statements'' \<mapsto> v)) =
     (if v = '''' then generate_affidavit_statements tok ba (info(''statements'' := None)) else v)"
  by (simp add: generate_affidavit_statements_def override_def)

lemma affidavit_statements_nonempty:
  "generate_affidavit_statements tok ba info \<noteq> ''''"
  by (auto simp: generate_affidavit_statements_def override_def Let_def split: option.splits sum.splits list.splits)

lemma affidavit_declaration_override:
  "generate_affidavit_declaration (info(''declaration'' \<mapsto> v)) =
     (if v = '''' then generate_affidavit_declaration (info(''declaration'' := None)) else v)"
  by (simp add: generate_affidavit_declaration_def override_def)

lemma affidavit_declaration_nonempty:
  "generate_affidavit_declaration info \<noteq> ''''"
  by (auto simp: generate_affidavit_declaration_def override_def Let_def split: option.splits sum.splits list.splits)

lemma attestation_override:
  "generate_attestation td (info(''attestation'' \<mapsto> v)) =
     (if v = '''' then generate_attestation td (info(''attestation'' := None)) else v)"
  by (simp add: generate_attestation_def override_def)

lemma attestation_nonempty:
  "generate_attestation td info \<noteq> ''''"
  by (auto simp: generate_attestation_def override_def Let_def split: option.splits sum.splits list.splits)

lemma sender_details_override:
  "generate_sender_details ents (info(''sender_details'' \<mapsto> v)) =
     (if v = '''' then generate_sender_details ents (info(''sender_details'' := None)) else v)"
  by (simp add: generate_sender_details_def override_def)

lemma sender_details_nonempty:
  "generate_sender_details ents info \<noteq> ''''"
  by (auto simp: generate_sender_details_def override_def Let_def split: option.splits sum.splits list.splits)

lemma recipient_details_override:
  "generate_recipient_details ents (info(''recipient_details'' \<mapsto> v)) =
     (if v = '''' then generate_recipient_details ents (info(''recipient_details'' := None)) else v)"
  by (simp add: generate_recipient_details_def override_def)

lemma recipient_details_nonempty:
  "generate_recipient_details ents info \<noteq> ''''"
  by (auto simp: generate_recipient_details_def override_def Let_def split: option.splits sum.splits list.splits)

lemma notice_subject_override:
  "generate_notice_subject ba (info(''subject'' \<mapsto> v)) =
     (if v = '''' then generate_notice_subject ba (info(''subject'' := None)) else v)"
  by (simp add: generate_notice_subject_def override_def)

lemma notice_subject_nonempty:
  "generate_notice_subject ba info \<noteq> ''''"
  by (auto simp: generate_notice_subject_def override_def Let_def split: option.splits sum.splits list.splits)

lemma notice_demand_override:
  "generate_notice_demand an (info(''demand'' \<mapsto> v)) =
     (if v = '''' then generate_notice_demand an (info(''demand'' := None)) else v)"
  by (simp add: generate_notice_demand_def override_def)

lemma notice_demand_nonempty:
  "generate_notice_demand an info \<noteq> ''''"
  by (auto simp: generate_notice_demand_def override_def Let_def split: option.splits sum.splits list.splits)

lemma notice_timeline_override:
  "generate_notice_timeline (info(''timeline'' \<mapsto> v)) =
     (if v = '''' then generate_notice_timeline (info(''timeline'' := None)) else v)"
  by (simp add: generate_notice_timeline_def override_def)

lemma notice_timeline_nonempty:
  "generate_notice_timeline info \<noteq> ''''"
  by (auto simp: generate_notice_timeline_def override_def Let_def split: option.splits sum.splits list.splits)

lemma notice_consequences_override:
  "generate_notice_consequences ls (info(''consequences'' \<mapsto> v)) =
     (if v = '''' then generate_notice_consequences ls (info(''consequences'' := None)) else v)"
  by (simp add: generate_notice_consequences_def override_def)

lemma notice_consequences_nonempty:
  "generate_notice_consequences ls info \<noteq> ''''"
  by (auto simp: generate_notice_consequences_def override_def Let_def split: option.splits sum.splits list.splits)
text \<open>
  C10. For every section builder of the drafting agent and every value \<open>v\<close> supplied
  under the section's key: an empty \<open>v\<close> is ignored, the builder returning what it
  returns without the key; a non-empty \<open>v\<close> is returned as the section. And no builder
  ever returns the empty string, so an override cannot make a section empty.
\<close>

theorem empty_override_ignored:
  "generate_title dt ba ents (info(''title'' \<mapsto> v)) =
     (if v = '''' then generate_title dt ba ents (info(''title'' := None)) else v)
   \<and> generate_title dt ba ents info \<noteq> ''''
   \<and> generate_parties_section dt ents (info(''parties'' \<mapsto> v)) =
     (if v = '''' then generate_parties_section dt ents (info(''parties'' := None)) else v)
   \<and> generate_parties_section dt ents info \<noteq> ''''
   \<and> generate_jurisdiction_section ba ents (info(''jurisdiction'' \<mapsto> v)) =
     (if v = '''' then generate_jurisdiction_section ba ents (info(''jurisdiction'' := None)) else v)
   \<and> generate_jurisdiction_section ba ents info \<noteq> ''''
   \<and> generate_facts_section tok dt ba ents (info(''facts'' \<mapsto> v)) =
     (if v = '''' then generate_facts_section tok dt ba ents (info(''facts'' := None)) else v)
   \<and> generate_facts_section tok dt ba ents info \<noteq> ''''
   \<and> generate_legal_provisions_section ls (info(''legal_provisions'' \<mapsto> v)) =
     (if v = '''' then generate_legal_provisions_section ls (info(''legal_provisions'' := None)) else v)
   \<and> generate_legal_provisions_section ls info \<noteq> ''''
   \<and> generate_grounds_section an ls ch (info(''grounds'' \<mapsto> v)) =
     (if v = '''' then generate_grounds_section an ls ch (info(''grounds'' := None)) else v)
   \<and> generate_grounds_section an ls ch info \<noteq> ''''
   \<and> generate_prayer_section dt an ba (info(''prayer'' \<mapsto> v)) =
     (if v = '''' then generate_prayer_section dt an ba (info(''prayer'' := None)) else v)
   \<and> generate_prayer_section dt an ba info \<noteq> ''''
   \<and> generate_verification_section td dt ents (info(''verification'' \<mapsto> v)) =
     (if v = '''' then generate_verification_section td dt ents (info(''verification'' := None)) else Inr v)
   \<and> generate_verification_section td dt ents info \<noteq> Inr ''''
   \<and> generate_preliminary_objections an (info(''preliminary_objections'' \<mapsto> v)) =
     (if v = '''' then generate_preliminary_objections an (info(''preliminary_objections'' := None)) else v)
   \<and> generate_preliminary_objections an info \<noteq> ''''
   \<and> generate_facts_rebuttal ba (info(''facts_rebuttal'' \<mapsto> v)) =
     (if v = '''' then generate_facts_rebuttal ba (info(''facts_rebuttal'' := None)) else v)
   \<and> generate_facts_rebuttal ba info \<noteq> ''''
   \<and> generate_legal_arguments an ls ch (info(''legal_arguments'' \<mapsto> v)) =
     (if v = '''' then generate_legal_arguments an ls ch (info(''legal_arguments'' := None)) else v)
   \<and> generate_legal_arguments an ls ch info \<noteq> ''''
   \<and> generate_rebuttal_to_reply an (info(''rebuttal_to_reply'' \<mapsto> v)) =
     (if v = '''' then generate_rebuttal_to_reply an (info(''rebuttal_to_reply'' := None)) else v)
   \<and> generate_rebuttal_to_reply an info \<noteq> ''''
   \<and> generate_additional_facts ba (info(''additional_facts'' \<mapsto> v)) =
     (if v = '''' then generate_additional_facts ba (info(''additional_facts'' := None)) else v)
   \<and> generate_additional_facts ba info \<noteq> ''''
   \<and> generate_deponent_details ents (info(''deponent_details'' \<mapsto> v)) =
     (if v = '''' then generate_deponent_details ents (info(''deponent_details'' := None)) else v)
   \<and> generate_deponent_details ents info \<noteq> ''''
   \<and> generate_affidavit_statements tok ba (info(''statements'' \<mapsto> v)) =
     (if v = '''' then generate_affidavit_statements tok ba (info(''statements'' := None)) else v)
   \<and> generate_affidavit_statements tok ba info \<noteq> ''''
   \<and> generate_affidavit_declaration (info(''declaration'' \<mapsto> v)) =
     (if v = '''' then generate_affidavit_declaration (info(''declaration'' := None)) else v)
   \<and> generate_affidavit_declaration info \<noteq> ''''
   \<and> generate_attestation td (info(''attestation'' \<mapsto> v)) =
     (if v = '''' then generate_attestation td (info(''attestation'' := None)) else v)
   \<and> generate_attestation td info \<noteq> ''''
   \<and> generate_sender_details ents (info(''sender_details'' \<mapsto> v)) =
     (if v = '''' then generate_sender_details ents (info(''sender_details'' := None)) else v)
   \<and> generate_sender_details ents info \<noteq> ''''
   \<and> generate_recipient_details ents (info(''recipient_details'' \<mapsto> v)) =
     (if v = '''' then generate_recipient_details ents (info(''recipient_details'' := None)) else v)
   \<and> generate_recipient_details ents info \<noteq> ''''
   \<and> generate_notice_subject ba (info(''subject'' \<mapsto> v)) =
     (if v = '''' then generate_notice_subject ba (info(''subject'' := None)) else v)
   \<and> generate_notice_subject ba info \<noteq> ''''
   \<and> generate_notice_demand an (info(''demand'' \<mapsto> v)) =
     (if v = '''' then generate_notice_demand an (info(''demand'' := None)) else v)
   \<and> generate_notice_demand an info \<noteq> ''''
   \<and> generate_notice_timeline (info(''timeline'' \<mapsto> v)) =
     (if v = '''' then generate_notice_timeline (info(''timeline'' := None)) else v)
   \<and> generate_notice_timeline info \<noteq> ''''
   \<and> generate_notice_consequences ls (info(''consequences'' \<mapsto> v)) =
     (if v = '''' then generate_notice_consequences ls (info(''consequences'' := None)) else v)
   \<and> generate_notice_consequences ls info \<noteq> ''''"
  by (intro conjI
      title_override title_nonempty
      parties_section_override parties_section_nonempty
      jurisdiction_section_override jurisdiction_section_nonempty
      facts_section_override facts_section_nonempty
      legal_provisions_section_override legal_provisions_section_nonempty
      grounds_section_override grounds_section_nonempty
      prayer_section_override prayer_section_nonempty
      verification_section_override verification_section_nonempty
      preliminary_objections_override preliminary_objections_nonempty
      facts_rebuttal_override facts_rebuttal_nonempty
      legal_arguments_override legal_arguments_nonempty
      rebuttal_to_reply_override rebuttal_to_reply_nonempty
      additional_facts_override additional_facts_nonempty
      deponent_details_override deponent_details_nonempty
      affidavit_statements_override affidavit_statements_nonempty
      affidavit_declaration_override affidavit_declaration_nonempty
      attestation_override attestation_nonempty
      sender_details_override sender_details_nonempty
      recipient_details_override recipient_details_nonempty
      notice_subject_override notice_subject_nonempty
      notice_demand_override notice_demand_nonempty
      notice_timeline_override notice_timeline_nonempty
      notice_consequences_override notice_consequences_nonempty)
theorem empty_override_ignored_witness:
  "generate_notice_timeline [''timeline'' \<mapsto> ''''] = generate_notice_timeline Map.empty
   \<and> generate_notice_timeline [''timeline'' \<mapsto> ''Within 15 days.''] = ''Within 15 days.''
   \<and> generate_title ''affidavit'' \<lparr>domains = None, acts = None, summary = None\<rparr>
        \<lparr>persons = None, organizations = None, dates = None, locations = None,
          monetary_values = None, potential_parties = None\<rparr> [''title'' \<mapsto> '''']
      = ''IN THE MATTER OF:\<newline>PETITIONER NAME ... PETITIONER\<newline>\<newline>VERSUS\<newline>\<newline>RESPONDENT NAME ... RESPONDENT''"
proof -
  have t: "generate_title ''affidavit'' \<lparr>domains = None, acts = None, summary = None\<rparr>
        \<lparr>persons = None, organizations = None, dates = None, locations = None,
          monetary_values = None, potential_parties = None\<rparr> Map.empty
      = ''IN THE MATTER OF:\<newline>PETITIONER NAME ... PETITIONER\<newline>\<newline>VERSUS\<newline>\<newline>RESPONDENT NAME ... RESPONDENT''"
    by (simp add: generate_title_def override_def dict_get_def py_or_def first_or_def)
  show ?thesis
    using empty_override_ignored
      [where info = Map.empty and v = "''''" and dt = "''affidavit''"
         and ba = "\<lparr>domains = None, acts = None, summary = None\<rparr>"
         and ents = "\<lparr>persons = None, organizations = None, dates = None, locations = None,
          monetary_values = None, potential_parties = None\<rparr>"]
      empty_override_ignored [where info = Map.empty and v = "''Within 15 days.''"]
    by (simp add: t)
qed

lemma lower_summons: "lower ''summons'' = ''summons''"
  by (simp add: lower_def lower_char_def)

lemma lower_upper_case_summons: "lower ''SUMMONS'' = ''summons''"
  by code_simp

lemma drafter_default_petition:
  assumes "lower dt \<notin> set template_names"
  shows "drafter_draft_case_file denv ps fs lps cps args
           \<lparr>opt_document_type = Some dt, opt_court = c, opt_include_arguments = ia,
             opt_include_prayer = ip\<rparr>
         = (drafter_draft_case_file denv ps fs lps cps args
             \<lparr>opt_document_type = Some ''petition'', opt_court = c, opt_include_arguments = ia,
               opt_include_prayer = ip\<rparr>)\<lparr>cf_document_type := lower dt\<rparr>"
proof -
  have p: "lower ''petition'' = ''petition''" by (simp add: lower_def lower_char_def)
  from assms have "lower dt \<noteq> ''petition''" "lower dt \<noteq> ''reply''" "lower dt \<noteq> ''rejoinder''"
    "lower dt \<noteq> ''written_statement''" "lower dt \<noteq> ''legal_notice''" "lower dt \<noteq> ''affidavit''"
    by (auto simp: template_names_def)
  then show ?thesis
    by (simp add: drafter_draft_case_file_def dict_get_def p Let_def)
qed

text \<open>
  C1, as the code has it. The drafting agent rejects every document type outside its six
  with \<^verbatim>\<open>ValueError("Unsupported document type: X")\<close> and returns no document. The
  drafter of the API does not: it lower-cases the type and, when the result is none of
  the six, drafts a petition, which it returns with the lower-cased type as its document
  type.
\<close>

theorem unsupported_document_type:
  "(doc_type \<notin> set template_names \<longrightarrow>
      draft_case_file env doc_type ba ls ch an brief ai
        = Inl (ValueError (''Unsupported document type: '' @ doc_type)))
   \<and> (lower dt \<notin> set template_names \<longrightarrow>
        drafter_draft_case_file denv ps fs lps cps args
           \<lparr>opt_document_type = Some dt, opt_court = c, opt_include_arguments = ia,
             opt_include_prayer = ip\<rparr>
         = (drafter_draft_case_file denv ps fs lps cps args
             \<lparr>opt_document_type = Some ''petition'', opt_court = c, opt_include_arguments = ia,
               opt_include_prayer = ip\<rparr>)\<lparr>cf_document_type := lower dt\<rparr>)"
  using drafter_default_petition [of dt denv ps fs lps cps args c ia ip]
  by (simp add: draft_case_file_def)

text \<open>
  In the examples the court is left to its default, so the one text that is upper-cased
  is \<^verbatim>\<open>High Court\<close>.
\<close>

theorem unsupported_document_type_witness:
  "draft_case_file
     \<lparr>today = ''03/11/2026'', now_iso = ''2026-11-03T10:00:00'', sent_tokenize = (\<lambda>text. [text]),
       extract_entities = (\<lambda>text. \<lparr>persons = Some [], organizations = Some [], dates = Some [],
          locations = Some [], monetary_values = Some [], potential_parties = Some Map.empty\<rparr>),
       fill_template = (\<lambda>doc_type sections. concat (map snd sections))\<rparr>
     ''summons'' \<lparr>domains = None, acts = None, summary = None\<rparr> [] []
     \<lparr>arguments = None, challenges = None, recommendations = None\<rparr> ''A vs B.'' None
   = Inl (ValueError ''Unsupported document type: summons'')
   \<and> drafter_draft_case_file
        \<lparr>date_dmy = ''03/11/2026'', date_day = ''03'', date_month_year = ''November 2026'',
          date_long = ''03 November 2026'', str_upper = (\<lambda>court. ''HIGH COURT'')\<rparr>
        \<lparr>petitioner = ''The Petitioner'', respondent = ''The Respondent''\<rparr> [] [] [] []
        \<lparr>opt_document_type = Some ''SUMMONS'', opt_court = None, opt_include_arguments = None,
          opt_include_prayer = None\<rparr>
     = (drafter_draft_case_file
        \<lparr>date_dmy = ''03/11/2026'', date_day = ''03'', date_month_year = ''November 2026'',
          date_long = ''03 November 2026'', str_upper = (\<lambda>court. ''HIGH COURT'')\<rparr>
        \<lparr>petitioner = ''The Petitioner'', respondent = ''The Respondent''\<rparr> [] [] [] []
        \<lparr>opt_document_type = Some ''petition'', opt_court = None, opt_include_arguments = None,
          opt_include_prayer = None\<rparr>)\<lparr>cf_document_type := ''summons''\<rparr>"
  using unsupported_document_type
    [of "''summons''"
        "\<lparr>today = ''03/11/2026'', now_iso = ''2026-11-03T10:00:00'', sent_tokenize = (\<lambda>text. [text]),
       extract_entities = (\<lambda>text. \<lparr>persons = Some [], organizations = Some [], dates = Some [],
          locations = Some [], monetary_values = Some [], potential_parties = Some Map.empty\<rparr>),
       fill_template = (\<lambda>doc_type sections. concat (map snd sections))\<rparr>"
        "\<lparr>domains = None, acts = None, summary = None\<rparr>" "[]" "[]"
        "\<lparr>arguments = None, challenges = None, recommendations = None\<rparr>" "''A vs B.''" None
        "''SUMMONS''"
        "\<lparr>date_dmy = ''03/11/2026'', date_day = ''03'', date_month_year = ''November 2026'',
          date_long = ''03 November 2026'', str_upper = (\<lambda>court. ''HIGH COURT'')\<rparr>"
        "\<lparr>petitioner = ''The Petitioner'', respondent = ''The Respondent''\<rparr>" "[]" "[]" "[]" "[]"
        None None None]
  by (simp add: template_names_def lower_upper_case_summons)

text \<open>
  C1, as the claim has it, fails for the drafter of the API: called with the document type
  \<^verbatim>\<open>summons\<close> it raises nothing and returns a petition; called with
  \<^verbatim>\<open>SUMMONS\<close> it returns the same petition, its document type again the lower-cased
  \<^verbatim>\<open>summons\<close>.
\<close>

theorem drafter_summons_is_petition:
  "drafter_draft_case_file
     \<lparr>date_dmy = ''03/11/2026'', date_day = ''03'', date_month_year = ''November 2026'',
       date_long = ''03 November 2026'', str_upper = (\<lambda>court. ''HIGH COURT'')\<rparr>
     \<lparr>petitioner = ''The Petitioner'', respondent = ''The Respondent''\<rparr> [] [] [] []
     \<lparr>opt_document_type = Some ''summons'', opt_court = None, opt_include_arguments = None,
       opt_include_prayer = None\<rparr>
   = \<lparr>cf_title = ''PETITION - The Petitioner vs. The Respondent'',
      cf_content = generate_petition
        \<lparr>date_dmy = ''03/11/2026'', date_day = ''03'', date_month_year = ''November 2026'',
          date_long = ''03 November 2026'', str_upper = (\<lambda>court. ''HIGH COURT'')\<rparr>
        \<lparr>petitioner = ''The Petitioner'', respondent = ''The Respondent''\<rparr> [] [] [] []
        ''High Court'' True True,
      cf_document_type = ''summons'',
      cf_court = ''High Court'',
      cf_date = ''03 November 2026'',
      cf_parties = \<lparr>petitioner = ''The Petitioner'', respondent = ''The Respondent''\<rparr>\<rparr>
   \<and> drafter_draft_case_file
     \<lparr>date_dmy = ''03/11/2026'', date_day = ''03'', date_month_year = ''November 2026'',
       date_long = ''03 November 2026'', str_upper = (\<lambda>court. ''HIGH COURT'')\<rparr>
     \<lparr>petitioner = ''The Petitioner'', respondent = ''The Respondent''\<rparr> [] [] [] []
     \<lparr>opt_document_type = Some ''SUMMONS'', opt_court = None, opt_include_arguments = None,
       opt_include_prayer = None\<rparr>
   = \<lparr>cf_title = ''PETITION - The Petitioner vs. The Respondent'',
      cf_content = generate_petition
        \<lparr>date_dmy = ''03/11/2026'', date_day = ''03'', date_month_year = ''November 2026'',
          date_long = ''03 November 2026'', str_upper = (\<lambda>court. ''HIGH COURT'')\<rparr>
        \<lparr>petitioner = ''The Petitioner'', respondent = ''The Respondent''\<rparr> [] [] [] []
        ''High Court'' True True,
      cf_document_type = ''summons'',
      cf_court = ''High Court'',
      cf_date = ''03 November 2026'',
      cf_parties = \<lparr>petitioner = ''The Petitioner'', respondent = ''The Respondent''\<rparr>\<rparr>"
  by (simp add: drafter_draft_case_file_def dict_get_def lower_summons lower_upper_case_summons
      Let_def)

end
